theory Spec2Isabelle
  imports Main "HOL-Library.Word"
begin

section \<open>Bytes, strings and failures\<close>

text \<open>
  A \<open>Uint8Array\<close> is a list of 8-bit words. A JavaScript string is modelled by the
  list of its UTF-8 code units (an Isabelle \<open>string\<close>), so \<open>utf8\<close> is the
  byte-for-byte image of the string and \<open>Buffer.from(str, 'utf8').length\<close> is its
  length. \<open>BN\<close> values and the numbers used as nonces are unsigned quantities
  and are modelled as natural numbers without an upper bound; the codec checks the width.
\<close>

type_synonym byte = "8 word"
type_synonym bytes = "byte list"

text \<open>
  Failures are values. The first four are the codec's errors of section 7 of the
  specification; \<open>InvalidLength\<close> is the writer's rejection of a fixed-width field of
  another width; \<open>TypeError\<close> is JavaScript's; the last two are the signer's.
  \<open>OutOfFuel\<close> is not a failure of the program: it marks the depth bound of the
  recursive reader below, and \<open>decode\<close> never returns it (lemma
  \<open>decode_depth_suffices\<close>).
\<close>

datatype error =
    TruncatedInput
  | TrailingBytes
  | UnknownDiscriminant
  | ValueOutOfRange
  | InvalidLength
  | TypeError
  | OutOfFuel
  | SignerUnavailable
  | SigningRejected

definition utf8 :: "string \<Rightarrow> bytes" where
  "utf8 s = map (\<lambda>c. of_nat (of_char c)) s"

definition utf8_decode :: "bytes \<Rightarrow> string" where
  "utf8_decode bs = map (\<lambda>b. char_of (unat b)) bs"

section \<open>The binary codec's primitives\<close>

text \<open>
  \<open>serialize\<close> and \<open>deserialize\<close> are imported by \<open>transaction.ts\<close> from the
  \<open>borsh\<close> package, whose code is not part of the sources. The writer and reader
  primitives below are modelled from section 4.2 of the specification; the tables that
  drive them (\<open>SCHEMA\<close>) are in the sources and are translated further down.
\<close>

fun le_bytes :: "nat \<Rightarrow> nat \<Rightarrow> bytes" where
  "le_bytes 0 n = []"
| "le_bytes (Suc k) n = of_nat (n mod 256) # le_bytes k (n div 256)"

fun le_nat :: "bytes \<Rightarrow> nat" where
  "le_nat [] = 0"
| "le_nat (b # bs) = unat b + 256 * le_nat bs"

text \<open>Modelled from the spec: the writer of the absent \<open>borsh\<close> package. Unsigned
  integers encode little-endian, fixed width per declared size; encoding fails if the
  value does not fit in the declared width.\<close>

definition writeUInt :: "nat \<Rightarrow> nat \<Rightarrow> error + bytes" where
  "writeUInt w n = (if n < 256 ^ w then Inr (le_bytes w n) else Inl ValueOutOfRange)"

definition writeU8 :: "byte \<Rightarrow> error + bytes" where
  "writeU8 b = Inr [b]"

definition writeU32 :: "nat \<Rightarrow> error + bytes" where
  "writeU32 n = writeUInt 4 n"

definition writeU64 :: "nat \<Rightarrow> error + bytes" where
  "writeU64 n = writeUInt 8 n"

definition writeU128 :: "nat \<Rightarrow> error + bytes" where
  "writeU128 n = writeUInt 16 n"

text \<open>Modelled from the spec: struct fields encode in declared order, no padding. The
  list holds the encodings of the fields in schema order; the first failure wins.\<close>

fun struct :: "(error + bytes) list \<Rightarrow> error + bytes" where
  "struct [] = Inr []"
| "struct (f # fs) =
     (case f of
        Inl e \<Rightarrow> Inl e
      | Inr b \<Rightarrow> (case struct fs of Inl e \<Rightarrow> Inl e | Inr bs \<Rightarrow> Inr (b @ bs)))"

text \<open>Modelled from the spec: fixed-size byte arrays encode as raw bytes; a value of
  any other length is invalid.\<close>

definition writeFixedArray :: "nat \<Rightarrow> bytes \<Rightarrow> error + bytes" where
  "writeFixedArray w bs = (if length bs = w then Inr bs else Inl InvalidLength)"

text \<open>Modelled from the spec: strings and variable-length sequences encode as a 4-byte
  little-endian length prefix followed by the raw UTF-8 bytes or the encoded elements.
  The specification gives no encoding for a string field that holds \<open>undefined\<close>
  (\<open>None\<close>): the writer converts its argument with \<open>Buffer.from(str, 'utf8')\<close>, which
  throws a \<open>TypeError\<close> for \<open>undefined\<close>.\<close>

definition writeString :: "string option \<Rightarrow> error + bytes" where
  "writeString str =
     (case str of
        None \<Rightarrow> Inl TypeError
      | Some s \<Rightarrow> struct [writeU32 (length (utf8 s)), Inr (utf8 s)])"

definition writeArray :: "(error + bytes) list \<Rightarrow> error + bytes" where
  "writeArray elems = struct (writeU32 (length elems) # elems)"

definition writeBytes :: "bytes \<Rightarrow> error + bytes" where
  "writeBytes bs = writeArray (map writeU8 bs)"

text \<open>Modelled from the spec: optional fields encode as a 1-byte presence flag (0/1)
  followed by the value only if present.\<close>

definition writeOption :: "('a \<Rightarrow> error + bytes) \<Rightarrow> 'a option \<Rightarrow> error + bytes" where
  "writeOption f v =
     (case v of None \<Rightarrow> writeU8 0 | Some x \<Rightarrow> struct [writeU8 1, f x])"

text \<open>Modelled from the spec: a union value encodes as a 1-byte discriminant, the index
  of the populated alternative in the declared variant list, followed by the variant's
  own encoding. The index is found by searching the declared names in order; the names
  passed below are all declared.\<close>

fun index_of :: "string \<Rightarrow> string list \<Rightarrow> nat option" where
  "index_of name [] = None"
| "index_of name (v # vs) =
     (if v = name then Some 0 else map_option Suc (index_of name vs))"

definition writeEnum :: "string list \<Rightarrow> string \<Rightarrow> (error + bytes) \<Rightarrow> error + bytes" where
  "writeEnum values name body =
     (case index_of name values of
        None \<Rightarrow> Inr []
      | Some idx \<Rightarrow> struct [writeU8 (of_nat idx), body])"

text \<open>Modelled from the spec: the reader of the absent \<open>borsh\<close> package. A reader
  takes the bytes that remain and returns the value read with the bytes after it, or
  \<open>TruncatedInput\<close> when the input is exhausted before the field is fully read. The
  bytes of a string are taken as they are: the validity of the UTF-8 is not modelled.\<close>

type_synonym 'a reader = "bytes \<Rightarrow> error + ('a \<times> bytes)"

definition bind :: "error + ('a \<times> bytes) \<Rightarrow> ('a \<Rightarrow> 'b reader) \<Rightarrow> error + ('b \<times> bytes)" where
  "bind r f = (case r of Inl e \<Rightarrow> Inl e | Inr (x, rest) \<Rightarrow> f x rest)"

definition readFixedArray :: "nat \<Rightarrow> bytes reader" where
  "readFixedArray w bs =
     (if length bs < w then Inl TruncatedInput else Inr (take w bs, drop w bs))"

definition readUInt :: "nat \<Rightarrow> nat reader" where
  "readUInt w bs = bind (readFixedArray w bs) (\<lambda>b rest. Inr (le_nat b, rest))"

definition readU8 :: "byte reader" where
  "readU8 bs = (case bs of [] \<Rightarrow> Inl TruncatedInput | b # rest \<Rightarrow> Inr (b, rest))"

definition readU32 :: "nat reader" where
  "readU32 = readUInt 4"

definition readU64 :: "nat reader" where
  "readU64 = readUInt 8"

definition readU128 :: "nat reader" where
  "readU128 = readUInt 16"

definition readString :: "string reader" where
  "readString bs =
     bind (readU32 bs) (\<lambda>len rest.
     bind (readFixedArray len rest) (\<lambda>b rest. Inr (utf8_decode b, rest)))"

fun readElems :: "'a reader \<Rightarrow> nat \<Rightarrow> 'a list reader" where
  "readElems f 0 bs = Inr ([], bs)"
| "readElems f (Suc n) bs =
     bind (f bs) (\<lambda>x rest.
     bind (readElems f n rest) (\<lambda>xs rest. Inr (x # xs, rest)))"

definition readArray :: "'a reader \<Rightarrow> 'a list reader" where
  "readArray f bs = bind (readU32 bs) (\<lambda>len rest. readElems f len rest)"

definition readBytes :: "bytes reader" where
  "readBytes = readArray readU8"

definition readOption :: "'a reader \<Rightarrow> 'a option reader" where
  "readOption f bs =
     bind (readU8 bs) (\<lambda>flag rest.
       if flag \<noteq> 0 then bind (f rest) (\<lambda>x rest. Inr (Some x, rest))
       else Inr (None, rest))"

text \<open>Modelled from the spec: decoding a top-level entity fails if trailing bytes
  remain after it.\<close>

definition deserialize :: "'a reader \<Rightarrow> bytes \<Rightarrow> error + 'a" where
  "deserialize f bs =
     (case f bs of
        Inl e \<Rightarrow> Inl e
      | Inr (x, rest) \<Rightarrow> if rest = [] then Inr x else Inl TrailingBytes)"

section \<open>The data model\<close>

text \<open>
  JavaScript values, as far as \<open>functionCall\<close> and the codec can observe them. The
  primitive values are \<open>undefined\<close>, \<open>null\<close>, booleans, numbers (the integers;
  fractions and \<open>NaN\<close> are left out), strings, BigInts and symbols (a symbol is known
  by its number). The objects are byte
  arrays (a \<open>Buffer\<close> is a \<open>Uint8Array\<close>), arrays, plain objects with their own
  properties, and functions (a function is given by its number of parameters, which its
  property \<open>length\<close> holds).

  Values are trees. An object written at one place of a tree is a different object from
  every object written at another place, unless both are marked as the same object:
  \<open>JShared n v\<close> is the object \<open>v\<close> under the identity \<open>n\<close>, and two places hold the
  same object when they hold it under the same identity. A value that refers to itself
  is not a tree and has no representation.
\<close>

datatype js =
    JUndefined
  | JNull
  | JBool bool
  | JNum int
  | JStr string
  | JBigInt int
  | JSymbol nat
  | JUint8Array bytes
  | JArray "js list"
  | JObject "(string \<times> js) list"
  | JFunction nat
  | JShared nat js

text \<open>Modelled from the spec: \<open>PublicKey\<close> is declared in \<open>utils/key_pair\<close>, which
  is not part of the sources: \<open>{keyType: u8, data: 32 bytes}\<close>.\<close>

record PublicKey =
  keyType :: byte
  data :: bytes

text \<open>Modelled from the spec: the result of signing, also declared in
  \<open>utils/key_pair\<close>. The code reads its field \<open>signature\<close>, the raw signature bytes.\<close>

record KeyPairSignature =
  signature :: bytes
  publicKey :: PublicKey

text \<open>Modelled from the spec: the local signing key (\<open>KeyPair\<close> of \<open>utils/key_pair\<close>):
  \<open>getPublicKey() -> PublicKey\<close>, \<open>sign(bytes) -> Signature\<close>, synchronous.\<close>

record KeyPair =
  getPublicKey :: PublicKey
  sign :: "bytes \<Rightarrow> KeyPairSignature"

text \<open>Modelled from the spec: the signer capability (\<open>Signer\<close> of \<open>signer\<close>):
  \<open>getPublicKey(accountId?, networkId?) -> PublicKey\<close> and
  \<open>signMessage(bytes, accountId?, networkId?) -> Signature\<close>, asynchronous, may fail.
  The signer is outside the module and may keep state of its own, so each call takes
  the signer's state and returns it.\<close>

record 's Signer =
  getPublicKey :: "string option \<Rightarrow> string option \<Rightarrow> 's \<Rightarrow> (error + PublicKey) \<times> 's"
  signMessage :: "bytes \<Rightarrow> string option \<Rightarrow> string option \<Rightarrow> 's \<Rightarrow> (error + KeyPairSignature) \<times> 's"

record Signature =
  keyType :: byte
  data :: bytes

record FunctionCallPermission =
  allowance :: "nat option"
  receiverId :: string
  methodNames :: "string list"

datatype AccessKeyPermission =
    Perm_functionCall FunctionCallPermission
  | Perm_fullAccess

record AccessKey =
  nonce :: nat
  permission :: AccessKeyPermission

text \<open>
  \<open>Action\<close> is an \<open>Enum\<close>: an object with exactly one of the nine keys populated.
  The fields of \<open>FunctionCall\<close> are \<open>methodName\<close>, \<open>args\<close>, \<open>gas\<close>, \<open>deposit\<close>;
  \<open>args\<close> is declared a \<open>Uint8Array\<close>, but \<open>functionCall\<close> stores whatever its
  \<open>stringify\<close> returns, and the reader of the entry \<open>['u8']\<close> returns an array of
  numbers, so the field holds a JavaScript value. The field \<open>code\<close> of
  \<open>DeployContract\<close> has the same entry \<open>['u8']\<close> and holds a JavaScript value for
  the same reason. The fields of
  \<open>DelegateAction\<close> are \<open>senderId\<close>, \<open>receiverId\<close>, \<open>actions\<close>, \<open>nonce\<close>,
  \<open>blockHash\<close>, \<open>publicKey\<close>.
\<close>

datatype Action =
    CreateAccount
  | DeployContract js
  | FunctionCall string js nat nat
  | Transfer nat
  | Stake nat PublicKey
  | AddKey PublicKey AccessKey
  | DeleteKey PublicKey
  | DeleteAccount string
  | Delegate SignedDelegateAction
and SignedDelegateAction =
    SignedDelegateAction DelegateAction Signature
and DelegateAction =
    DelegateAction string string "NonDelegateAction list" nat bytes PublicKey
and NonDelegateAction =
    NonDelegateAction Action

text \<open>
  \<open>signerId\<close> is declared a string, but \<open>signTransaction\<close> passes its optional
  \<open>accountId\<close> into it, so the field may hold \<open>undefined\<close> (\<open>None\<close>).
\<close>

record Transaction =
  signerId :: "string option"
  publicKey :: PublicKey
  nonce :: nat
  receiverId :: string
  actions :: "Action list"
  blockHash :: bytes

record SignedTransaction =
  transaction :: Transaction
  signature :: Signature

section \<open>The schema\<close>

text \<open>
  Each entry of \<open>SCHEMA\<close> becomes the serializer and the reader of its class: the
  fields in the order of the entry's \<open>fields\<close>, the alternatives in the order of its
  \<open>values\<close>.
\<close>

definition serialize_Signature :: "Signature \<Rightarrow> error + bytes" where
  "serialize_Signature s =
     struct [writeU8 (Signature.keyType s), writeFixedArray 64 (Signature.data s)]"

definition serialize_PublicKey :: "PublicKey \<Rightarrow> error + bytes" where
  "serialize_PublicKey k =
     struct [writeU8 (PublicKey.keyType k), writeFixedArray 32 (PublicKey.data k)]"

definition serialize_FunctionCallPermission :: "FunctionCallPermission \<Rightarrow> error + bytes" where
  "serialize_FunctionCallPermission p =
     struct [writeOption writeU128 (allowance p),
             writeString (Some (FunctionCallPermission.receiverId p)),
             writeArray (map (\<lambda>m. writeString (Some m)) (methodNames p))]"

definition AccessKeyPermission_values :: "string list" where
  "AccessKeyPermission_values = [''functionCall'', ''fullAccess'']"

fun serialize_AccessKeyPermission :: "AccessKeyPermission \<Rightarrow> error + bytes" where
  "serialize_AccessKeyPermission (Perm_functionCall p) =
     writeEnum AccessKeyPermission_values ''functionCall'' (serialize_FunctionCallPermission p)"
| "serialize_AccessKeyPermission Perm_fullAccess =
     writeEnum AccessKeyPermission_values ''fullAccess'' (struct [])"

definition serialize_AccessKey :: "AccessKey \<Rightarrow> error + bytes" where
  "serialize_AccessKey k =
     struct [writeU64 (AccessKey.nonce k), serialize_AccessKeyPermission (permission k)]"

definition Action_values :: "string list" where
  "Action_values =
     [''createAccount'', ''deployContract'', ''functionCall'', ''transfer'', ''stake'',
      ''addKey'', ''deleteKey'', ''deleteAccount'', ''delegate'']"

text \<open>Modelled from the spec: the entries \<open>['code', ['u8']]\<close> and \<open>['args', ['u8']]\<close> write
  the length of the value and then every element as a \<open>u8\<close>, and fail for an element
  that does not fit one byte. A byte array and an array of numbers between 0 and 255 are
  sequences of such elements; other values are not. The writer sees the object, whatever
  other places hold it too.
\<close>

fun writeU8_js :: "js \<Rightarrow> error + bytes" where
  "writeU8_js (JNum n) =
     (if 0 \<le> n \<and> n \<le> 255 then writeU8 (of_int n) else Inl ValueOutOfRange)"
| "writeU8_js _ = Inl TypeError"

fun writeBytes_js :: "js \<Rightarrow> error + bytes" where
  "writeBytes_js (JUint8Array bs) = writeBytes bs"
| "writeBytes_js (JArray xs) = writeArray (map writeU8_js xs)"
| "writeBytes_js (JShared n v) = writeBytes_js v"
| "writeBytes_js _ = Inl TypeError"

text \<open>Modelled from the spec: a variable-length sequence is read as its length and then its
  elements, each by its own schema. The elements of an entry \<open>['u8']\<close> are read with
  \<open>readU8\<close>, which returns a number, and the reader returns the sequence of these
  numbers as a plain array, a new object (the reader of a fixed-width entry \<open>[32]\<close> or
  \<open>[64]\<close> returns the raw bytes, a \<open>Buffer\<close>).
\<close>

definition numbers :: "bytes \<Rightarrow> js" where
  "numbers bs = JArray (map (\<lambda>b. JNum (uint b)) bs)"

definition readBytes_js :: "js reader" where
  "readBytes_js bs = bind (readBytes bs) (\<lambda>elems rest. Inr (numbers elems, rest))"

fun serialize_Action :: "Action \<Rightarrow> error + bytes"
  and serialize_SignedDelegateAction :: "SignedDelegateAction \<Rightarrow> error + bytes"
  and serialize_DelegateAction :: "DelegateAction \<Rightarrow> error + bytes"
  and serialize_NonDelegateAction :: "NonDelegateAction \<Rightarrow> error + bytes"
where
  "serialize_Action CreateAccount =
     writeEnum Action_values ''createAccount'' (struct [])"
| "serialize_Action (DeployContract code) =
     writeEnum Action_values ''deployContract'' (struct [writeBytes_js code])"
| "serialize_Action (FunctionCall methodName args gas deposit) =
     writeEnum Action_values ''functionCall''
       (struct [writeString (Some methodName), writeBytes_js args, writeU64 gas,
                writeU128 deposit])"
| "serialize_Action (Transfer deposit) =
     writeEnum Action_values ''transfer'' (struct [writeU128 deposit])"
| "serialize_Action (Stake stake pk) =
     writeEnum Action_values ''stake'' (struct [writeU128 stake, serialize_PublicKey pk])"
| "serialize_Action (AddKey pk ak) =
     writeEnum Action_values ''addKey'' (struct [serialize_PublicKey pk, serialize_AccessKey ak])"
| "serialize_Action (DeleteKey pk) =
     writeEnum Action_values ''deleteKey'' (struct [serialize_PublicKey pk])"
| "serialize_Action (DeleteAccount beneficiaryId) =
     writeEnum Action_values ''deleteAccount'' (struct [writeString (Some beneficiaryId)])"
| "serialize_Action (Delegate d) =
     writeEnum Action_values ''delegate'' (serialize_SignedDelegateAction d)"
| "serialize_SignedDelegateAction (SignedDelegateAction da sg) =
     struct [serialize_DelegateAction da, serialize_Signature sg]"
| "serialize_DelegateAction (DelegateAction senderId rid acts n bh pk) =
     struct [writeString (Some senderId),
             writeString (Some rid),
             writeArray (map serialize_NonDelegateAction acts),
             writeU64 n,
             writeFixedArray 32 bh,
             serialize_PublicKey pk]"
| "serialize_NonDelegateAction (NonDelegateAction a) =
     struct [serialize_Action a]"

definition serialize_Transaction :: "Transaction \<Rightarrow> error + bytes" where
  "serialize_Transaction t =
     struct [writeString (signerId t),
             serialize_PublicKey (Transaction.publicKey t),
             writeU64 (Transaction.nonce t),
             writeString (Some (Transaction.receiverId t)),
             writeFixedArray 32 (blockHash t),
             writeArray (map serialize_Action (actions t))]"


definition deserialize_Signature :: "Signature reader" where
  "deserialize_Signature bs =
     bind (readU8 bs) (\<lambda>kt rest.
     bind (readFixedArray 64 rest) (\<lambda>d rest.
       Inr (\<lparr>Signature.keyType = kt, Signature.data = d\<rparr>, rest)))"

definition deserialize_PublicKey :: "PublicKey reader" where
  "deserialize_PublicKey bs =
     bind (readU8 bs) (\<lambda>kt rest.
     bind (readFixedArray 32 rest) (\<lambda>d rest.
       Inr (\<lparr>PublicKey.keyType = kt, PublicKey.data = d\<rparr>, rest)))"

definition deserialize_FunctionCallPermission :: "FunctionCallPermission reader" where
  "deserialize_FunctionCallPermission bs =
     bind (readOption readU128 bs) (\<lambda>al rest.
     bind (readString rest) (\<lambda>rid rest.
     bind (readArray readString rest) (\<lambda>ms rest.
       Inr (\<lparr>allowance = al, receiverId = rid, methodNames = ms\<rparr>, rest))))"

definition deserialize_AccessKeyPermission :: "AccessKeyPermission reader" where
  "deserialize_AccessKeyPermission bs =
     bind (readU8 bs) (\<lambda>idx rest.
       if unat idx \<ge> length AccessKeyPermission_values then Inl UnknownDiscriminant
       else if idx = 0 then
         bind (deserialize_FunctionCallPermission rest) (\<lambda>p rest.
           Inr (Perm_functionCall p, rest))
       else Inr (Perm_fullAccess, rest))"

definition deserialize_AccessKey :: "AccessKey reader" where
  "deserialize_AccessKey bs =
     bind (readU64 bs) (\<lambda>n rest.
     bind (deserialize_AccessKeyPermission rest) (\<lambda>p rest.
       Inr (\<lparr>AccessKey.nonce = n, permission = p\<rparr>, rest)))"

text \<open>The readers of the entries of the action classes without a nested action.\<close>

definition deserialize_DeployContract :: "Action reader" where
  "deserialize_DeployContract bs =
     bind (readBytes_js bs) (\<lambda>code rest. Inr (DeployContract code, rest))"

definition deserialize_FunctionCall :: "Action reader" where
  "deserialize_FunctionCall bs =
     bind (readString bs) (\<lambda>methodName rest.
     bind (readBytes_js rest) (\<lambda>args rest.
     bind (readU64 rest) (\<lambda>gas rest.
     bind (readU128 rest) (\<lambda>deposit rest.
       Inr (FunctionCall methodName args gas deposit, rest)))))"

definition deserialize_Transfer :: "Action reader" where
  "deserialize_Transfer bs =
     bind (readU128 bs) (\<lambda>deposit rest. Inr (Transfer deposit, rest))"

definition deserialize_Stake :: "Action reader" where
  "deserialize_Stake bs =
     bind (readU128 bs) (\<lambda>stake rest.
     bind (deserialize_PublicKey rest) (\<lambda>pk rest. Inr (Stake stake pk, rest)))"

definition deserialize_AddKey :: "Action reader" where
  "deserialize_AddKey bs =
     bind (deserialize_PublicKey bs) (\<lambda>pk rest.
     bind (deserialize_AccessKey rest) (\<lambda>ak rest. Inr (AddKey pk ak, rest)))"

definition deserialize_DeleteKey :: "Action reader" where
  "deserialize_DeleteKey bs =
     bind (deserialize_PublicKey bs) (\<lambda>pk rest. Inr (DeleteKey pk, rest))"

definition deserialize_DeleteAccount :: "Action reader" where
  "deserialize_DeleteAccount bs =
     bind (readString bs) (\<lambda>beneficiaryId rest. Inr (DeleteAccount beneficiaryId, rest))"

text \<open>
  The readers of the classes around a nested action take the reader of \<open>Action\<close> as
  their first argument.
\<close>

definition deserialize_NonDelegateAction :: "Action reader \<Rightarrow> NonDelegateAction reader" where
  "deserialize_NonDelegateAction readAction bs =
     bind (readAction bs) (\<lambda>a rest. Inr (NonDelegateAction a, rest))"

definition deserialize_DelegateAction :: "Action reader \<Rightarrow> DelegateAction reader" where
  "deserialize_DelegateAction readAction bs =
     bind (readString bs) (\<lambda>senderId rest.
     bind (readString rest) (\<lambda>rid rest.
     bind (readArray (deserialize_NonDelegateAction readAction) rest) (\<lambda>acts rest.
     bind (readU64 rest) (\<lambda>n rest.
     bind (readFixedArray 32 rest) (\<lambda>bh rest.
     bind (deserialize_PublicKey rest) (\<lambda>pk rest.
       Inr (DelegateAction senderId rid acts n bh pk, rest)))))))"

definition deserialize_SignedDelegateAction :: "Action reader \<Rightarrow> SignedDelegateAction reader" where
  "deserialize_SignedDelegateAction readAction bs =
     bind (deserialize_DelegateAction readAction bs) (\<lambda>da rest.
     bind (deserialize_Signature rest) (\<lambda>sg rest.
       Inr (SignedDelegateAction da sg, rest)))"

text \<open>
  The reader of an \<open>Action\<close> calls itself for the actions wrapped in a \<open>Delegate\<close>.
  Its first argument bounds the depth of that recursion; every nested \<open>Action\<close>
  takes at least its discriminant byte from the input, so the length of the input,
  which \<open>Transaction_decode\<close> and \<open>SignedTransaction_decode\<close> pass, is a bound that
  is never reached (lemma \<open>decode_depth_suffices\<close>).
\<close>

primrec deserialize_Action :: "nat \<Rightarrow> Action reader" where
  "deserialize_Action 0 bs = Inl OutOfFuel"
| "deserialize_Action (Suc k) bs =
     bind (readU8 bs) (\<lambda>idx rest.
       if unat idx \<ge> length Action_values then Inl UnknownDiscriminant
       else if idx = 0 then Inr (CreateAccount, rest)
       else if idx = 1 then deserialize_DeployContract rest
       else if idx = 2 then deserialize_FunctionCall rest
       else if idx = 3 then deserialize_Transfer rest
       else if idx = 4 then deserialize_Stake rest
       else if idx = 5 then deserialize_AddKey rest
       else if idx = 6 then deserialize_DeleteKey rest
       else if idx = 7 then deserialize_DeleteAccount rest
       else bind (deserialize_SignedDelegateAction (deserialize_Action k) rest)
              (\<lambda>d rest. Inr (Delegate d, rest)))"

definition deserialize_Transaction :: "nat \<Rightarrow> Transaction reader" where
  "deserialize_Transaction k bs =
     bind (readString bs) (\<lambda>sid rest.
     bind (deserialize_PublicKey rest) (\<lambda>pk rest.
     bind (readU64 rest) (\<lambda>n rest.
     bind (readString rest) (\<lambda>rid rest.
     bind (readFixedArray 32 rest) (\<lambda>bh rest.
     bind (readArray (deserialize_Action k) rest) (\<lambda>acts rest.
       Inr (\<lparr>signerId = Some sid, publicKey = pk, nonce = n, receiverId = rid,
             actions = acts, blockHash = bh\<rparr>, rest)))))))"

definition deserialize_SignedTransaction :: "nat \<Rightarrow> SignedTransaction reader" where
  "deserialize_SignedTransaction k bs =
     bind (deserialize_Transaction k bs) (\<lambda>t rest.
     bind (deserialize_Signature rest) (\<lambda>sg rest.
       Inr (\<lparr>transaction = t, signature = sg\<rparr>, rest)))"

text \<open>The methods \<open>encode\<close> and \<open>decode\<close> of \<open>Transaction\<close> and \<open>SignedTransaction\<close>.\<close>

definition Transaction_encode :: "Transaction \<Rightarrow> error + bytes" where
  "Transaction_encode t = serialize_Transaction t"

definition Transaction_decode :: "bytes \<Rightarrow> error + Transaction" where
  "Transaction_decode bs = deserialize (deserialize_Transaction (length bs)) bs"


definition SignedTransaction_decode :: "bytes \<Rightarrow> error + SignedTransaction" where
  "SignedTransaction_decode bs = deserialize (deserialize_SignedTransaction (length bs)) bs"

section \<open>Builders\<close>

definition fullAccessKey :: AccessKey where
  "fullAccessKey = \<lparr>AccessKey.nonce = 0, permission = Perm_fullAccess\<rparr>"

definition functionCallAccessKey :: "string \<Rightarrow> string list \<Rightarrow> nat option \<Rightarrow> AccessKey" where
  "functionCallAccessKey receiverId' methodNames' allowance' =
     \<lparr>AccessKey.nonce = 0,
      permission = Perm_functionCall
        \<lparr>allowance = allowance', receiverId = receiverId', methodNames = methodNames'\<rparr>\<rparr>"

definition createAccount :: Action where
  "createAccount = CreateAccount"

text \<open>\<open>deployContract\<close> takes a \<open>Uint8Array\<close> and stores it.\<close>

definition deployContract :: "bytes \<Rightarrow> Action" where
  "deployContract code = DeployContract (JUint8Array code)"

text \<open>
  Reading the properties \<open>byteLength\<close> and \<open>length\<close> of a value. Reading a property
  of \<open>undefined\<close> or \<open>null\<close> throws; a property that is absent reads as \<open>undefined\<close>.
  The properties of a plain object are data properties, and the prototypes of the
  built-in kinds are the standard ones: a byte array has both properties, an array, a
  string and a function have \<open>length\<close> only, the other primitive values have neither.
  The length of a string is the length of the list for ASCII strings; the code reads it
  only after \<open>byteLength\<close>, which a string does not have.
\<close>

definition own_prop :: "(string \<times> js) list \<Rightarrow> string \<Rightarrow> js" where
  "own_prop kvs p = (case map_of kvs p of None \<Rightarrow> JUndefined | Some v \<Rightarrow> v)"

fun prop_byteLength :: "js \<Rightarrow> error + js" where
  "prop_byteLength JUndefined = Inl TypeError"
| "prop_byteLength JNull = Inl TypeError"
| "prop_byteLength (JUint8Array bs) = Inr (JNum (int (length bs)))"
| "prop_byteLength (JObject kvs) = Inr (own_prop kvs ''byteLength'')"
| "prop_byteLength (JShared n v) = prop_byteLength v"
| "prop_byteLength _ = Inr JUndefined"

fun prop_length :: "js \<Rightarrow> error + js" where
  "prop_length JUndefined = Inl TypeError"
| "prop_length JNull = Inl TypeError"
| "prop_length (JUint8Array bs) = Inr (JNum (int (length bs)))"
| "prop_length (JArray xs) = Inr (JNum (int (length xs)))"
| "prop_length (JStr s) = Inr (JNum (int (length s)))"
| "prop_length (JObject kvs) = Inr (own_prop kvs ''length'')"
| "prop_length (JFunction arity) = Inr (JNum (int arity))"
| "prop_length (JShared n v) = prop_length v"
| "prop_length _ = Inr JUndefined"

text \<open>
  Strict equality \<open>===\<close>. Two primitive values are equal when they are the same value.
  Two objects are equal only when they are the same object: both are held under an
  identity, and it is the same one. An object and a primitive value are never equal.
\<close>

fun is_object :: "js \<Rightarrow> bool" where
  "is_object (JUint8Array bs) = True"
| "is_object (JArray xs) = True"
| "is_object (JObject kvs) = True"
| "is_object (JFunction arity) = True"
| "is_object (JShared n v) = is_object v"
| "is_object _ = False"

fun identity :: "js \<Rightarrow> nat option" where
  "identity (JShared n v) = Some n"
| "identity _ = None"

fun same_primitive :: "js \<Rightarrow> js \<Rightarrow> bool" where
  "same_primitive JUndefined b = (b = JUndefined)"
| "same_primitive JNull b = (b = JNull)"
| "same_primitive (JBool x) b = (b = JBool x)"
| "same_primitive (JNum x) b = (b = JNum x)"
| "same_primitive (JStr x) b = (b = JStr x)"
| "same_primitive (JBigInt x) b = (b = JBigInt x)"
| "same_primitive (JSymbol x) b = (b = JSymbol x)"
| "same_primitive _ b = False"

fun unshared :: "js \<Rightarrow> js" where
  "unshared (JShared n v) = unshared v"
| "unshared v = v"

definition strict_equal :: "js \<Rightarrow> js \<Rightarrow> bool" where
  "strict_equal a b =
     (if is_object a \<and> is_object b then identity a \<noteq> None \<and> identity a = identity b
      else same_primitive (unshared a) (unshared b))"

text \<open>
  \<open>isUint8Array\<close> is the test of the first line of \<open>stringifyJsonOrBytes\<close>; \<open>&&\<close>
  reads \<open>length\<close> only when \<open>byteLength\<close> is not \<open>undefined\<close>. \<open>JSON.stringify\<close> is a
  built-in and is a parameter of the model: it returns a string, or returns
  \<open>undefined\<close> (\<open>None\<close>; for \<open>undefined\<close>, a function or a symbol), or throws (for a
  BigInt, for a value that refers to itself, or when a \<open>toJSON\<close> throws).
  \<open>Buffer.from\<close> of a string is its UTF-8 image; \<open>Buffer.from\<close> of \<open>undefined\<close>
  throws a \<open>TypeError\<close>.
\<close>

definition isUint8Array :: "js \<Rightarrow> error + bool" where
  "isUint8Array args =
     (case prop_byteLength args of
        Inl e \<Rightarrow> Inl e
      | Inr bl \<Rightarrow>
          if \<not> strict_equal bl JUndefined then
            (case prop_length args of Inl e \<Rightarrow> Inl e | Inr l \<Rightarrow> Inr (strict_equal bl l))
          else Inr False)"

definition Buffer_from :: "string option \<Rightarrow> error + js" where
  "Buffer_from v = (case v of None \<Rightarrow> Inl TypeError | Some s \<Rightarrow> Inr (JUint8Array (utf8 s)))"

definition stringifyJsonOrBytes :: "(js \<Rightarrow> error + string option) \<Rightarrow> js \<Rightarrow> error + js" where
  "stringifyJsonOrBytes JSON_stringify args =
     (case isUint8Array args of
        Inl e \<Rightarrow> Inl e
      | Inr b \<Rightarrow>
          if b then Inr args
          else (case JSON_stringify args of Inl e \<Rightarrow> Inl e | Inr r \<Rightarrow> Buffer_from r))"

definition functionCall ::
  "string \<Rightarrow> js \<Rightarrow> nat \<Rightarrow> nat \<Rightarrow> (js \<Rightarrow> error + js) \<Rightarrow> bool \<Rightarrow> error + Action" where
  "functionCall methodName args gas deposit stringify jsContract =
     (if jsContract then Inr (FunctionCall methodName args gas deposit)
      else (case stringify args of
              Inl e \<Rightarrow> Inl e
            | Inr a \<Rightarrow> Inr (FunctionCall methodName a gas deposit)))"

definition transfer :: "nat \<Rightarrow> Action" where
  "transfer deposit = Transfer deposit"

definition stake :: "nat \<Rightarrow> PublicKey \<Rightarrow> Action" where
  "stake stake' publicKey' = Stake stake' publicKey'"

definition addKey :: "PublicKey \<Rightarrow> AccessKey \<Rightarrow> Action" where
  "addKey publicKey' accessKey = AddKey publicKey' accessKey"

definition deleteKey :: "PublicKey \<Rightarrow> Action" where
  "deleteKey publicKey' = DeleteKey publicKey'"

definition deleteAccount :: "string \<Rightarrow> Action" where
  "deleteAccount beneficiaryId = DeleteAccount beneficiaryId"

section \<open>Signing\<close>

text \<open>
  \<open>sha256.sha256.array\<close> comes from the package \<open>js-sha256\<close>; the hash function is the
  first parameter of every function that hashes.
\<close>

definition signDelegateActionData ::
  "(bytes \<Rightarrow> bytes) \<Rightarrow> DelegateAction \<Rightarrow> KeyPair \<Rightarrow> error + Signature" where
  "signDelegateActionData sha256 delegateAction' keyPair =
     (case serialize_DelegateAction delegateAction' of
        Inl e \<Rightarrow> Inl e
      | Inr message \<Rightarrow>
          (let hash = sha256 message;
               signature' = sign keyPair hash
           in Inr \<lparr>Signature.keyType = PublicKey.keyType (KeyPair.getPublicKey keyPair),
                   Signature.data = KeyPairSignature.signature signature'\<rparr>))"

definition delegateAction ::
  "(bytes \<Rightarrow> bytes) \<Rightarrow> string \<Rightarrow> string \<Rightarrow> Action list \<Rightarrow> nat \<Rightarrow> bytes \<Rightarrow> KeyPair
     \<Rightarrow> error + Action" where
  "delegateAction sha256 senderId receiverId' actions' nonce' blockHash' keyPair =
     (let publicKey' = KeyPair.getPublicKey keyPair;
          nonDelegateActions = map NonDelegateAction actions';
          delegateAction' =
            DelegateAction senderId receiverId' nonDelegateActions nonce' blockHash' publicKey'
      in (case signDelegateActionData sha256 delegateAction' keyPair of
            Inl e \<Rightarrow> Inl e
          | Inr signature' \<Rightarrow> Inr (Delegate (SignedDelegateAction delegateAction' signature'))))"

definition createTransaction ::
  "string option \<Rightarrow> PublicKey \<Rightarrow> string \<Rightarrow> nat \<Rightarrow> Action list \<Rightarrow> bytes \<Rightarrow> Transaction" where
  "createTransaction signerId' publicKey' receiverId' nonce' actions' blockHash' =
     \<lparr>signerId = signerId', publicKey = publicKey', nonce = nonce',
      receiverId = receiverId', actions = actions', blockHash = blockHash'\<rparr>"

definition signTransactionObject ::
  "(bytes \<Rightarrow> bytes) \<Rightarrow> Transaction \<Rightarrow> 's Signer \<Rightarrow> string option \<Rightarrow> string option \<Rightarrow> 's
     \<Rightarrow> (error + bytes \<times> SignedTransaction) \<times> 's" where
  "signTransactionObject sha256 transaction' signer accountId networkId s =
     (case serialize_Transaction transaction' of
        Inl e \<Rightarrow> (Inl e, s)
      | Inr message \<Rightarrow>
          (let hash = sha256 message
           in (case signMessage signer message accountId networkId s of
                 (Inl e, s') \<Rightarrow> (Inl e, s')
               | (Inr signature', s') \<Rightarrow>
                   (Inr (hash,
                         \<lparr>transaction = transaction',
                          signature =
                            \<lparr>Signature.keyType =
                               PublicKey.keyType (Transaction.publicKey transaction'),
                             Signature.data = KeyPairSignature.signature signature'\<rparr>\<rparr>),
                    s'))))"

text \<open>
  The two call shapes of \<open>signTransaction\<close>: the arguments before \<open>signer\<close> are either
  a \<open>Transaction\<close> (its constructor is \<open>Transaction\<close>) or the four parts.
\<close>

datatype signTransaction_args =
    FromTransaction Transaction
  | FromParts string nat "Action list" bytes

definition signTransaction ::
  "(bytes \<Rightarrow> bytes) \<Rightarrow> signTransaction_args \<Rightarrow> 's Signer \<Rightarrow> string option \<Rightarrow> string option \<Rightarrow> 's
     \<Rightarrow> (error + bytes \<times> SignedTransaction) \<times> 's" where
  "signTransaction sha256 args signer accountId networkId s =
     (case args of
        FromTransaction transaction' \<Rightarrow>
          signTransactionObject sha256 transaction' signer accountId networkId s
      | FromParts receiverId' nonce' actions' blockHash' \<Rightarrow>
          (case Signer.getPublicKey signer accountId networkId s of
             (Inl e, s') \<Rightarrow> (Inl e, s')
           | (Inr publicKey', s') \<Rightarrow>
               (let transaction' =
                      createTransaction accountId publicKey' receiverId' nonce' actions' blockHash'
                in signTransactionObject sha256 transaction' signer accountId networkId s')))"

section \<open>Well-formed entities\<close>

text \<open>
  An entity of the data model is well formed when its fixed-width fields have their
  exact width (32 bytes for a key or a block hash, 64 for a signature), its integers fit
  their declared width, its strings and sequences have a length that fits the 4-byte
  prefix, every string field holds a string and every byte field holds bytes.

  An integer field holds a natural number. The writers take a \<open>BN\<close> wherever the
  declared type is \<open>number\<close>, and the readers of the 8- and 16-byte integers return a
  \<open>BN\<close>; a JavaScript number is an exact integer only below \<open>2^53\<close>, so a field
  value from \<open>2^53\<close> on stands for a \<open>BN\<close>.
\<close>

definition well_formed_string :: "string \<Rightarrow> bool" where
  "well_formed_string s \<longleftrightarrow> length s < 2 ^ 32"

definition well_formed_PublicKey :: "PublicKey \<Rightarrow> bool" where
  "well_formed_PublicKey k \<longleftrightarrow> length (PublicKey.data k) = 32"

definition well_formed_Signature :: "Signature \<Rightarrow> bool" where
  "well_formed_Signature s \<longleftrightarrow> length (Signature.data s) = 64"

definition well_formed_FunctionCallPermission :: "FunctionCallPermission \<Rightarrow> bool" where
  "well_formed_FunctionCallPermission p \<longleftrightarrow>
     (case allowance p of None \<Rightarrow> True | Some a \<Rightarrow> a < 2 ^ 128) \<and>
     well_formed_string (FunctionCallPermission.receiverId p) \<and>
     length (methodNames p) < 2 ^ 32 \<and>
     list_all well_formed_string (methodNames p)"

fun well_formed_AccessKeyPermission :: "AccessKeyPermission \<Rightarrow> bool" where
  "well_formed_AccessKeyPermission (Perm_functionCall p) = well_formed_FunctionCallPermission p"
| "well_formed_AccessKeyPermission Perm_fullAccess = True"

definition well_formed_AccessKey :: "AccessKey \<Rightarrow> bool" where
  "well_formed_AccessKey k \<longleftrightarrow>
     AccessKey.nonce k < 2 ^ 64 \<and> well_formed_AccessKeyPermission (permission k)"

text \<open>
  A value in a byte field is a byte array, or an array of numbers between 0 and 255,
  possibly held at other places too.
\<close>

fun is_byte_number :: "js \<Rightarrow> bool" where
  "is_byte_number (JNum n) = (0 \<le> n \<and> n \<le> 255)"
| "is_byte_number _ = False"

fun well_formed_bytes_js :: "js \<Rightarrow> bool" where
  "well_formed_bytes_js (JUint8Array bs) = (length bs < 2 ^ 32)"
| "well_formed_bytes_js (JArray xs) = (length xs < 2 ^ 32 \<and> list_all is_byte_number xs)"
| "well_formed_bytes_js (JShared n v) = well_formed_bytes_js v"
| "well_formed_bytes_js _ = False"

fun well_formed_Action :: "Action \<Rightarrow> bool"
  and well_formed_SignedDelegateAction :: "SignedDelegateAction \<Rightarrow> bool"
  and well_formed_DelegateAction :: "DelegateAction \<Rightarrow> bool"
  and well_formed_NonDelegateAction :: "NonDelegateAction \<Rightarrow> bool"
where
  "well_formed_Action CreateAccount = True"
| "well_formed_Action (DeployContract code) = well_formed_bytes_js code"
| "well_formed_Action (FunctionCall methodName args gas deposit) =
     (well_formed_string methodName \<and> well_formed_bytes_js args \<and> gas < 2 ^ 64 \<and>
      deposit < 2 ^ 128)"
| "well_formed_Action (Transfer deposit) = (deposit < 2 ^ 128)"
| "well_formed_Action (Stake stake' pk) = (stake' < 2 ^ 128 \<and> well_formed_PublicKey pk)"
| "well_formed_Action (AddKey pk ak) = (well_formed_PublicKey pk \<and> well_formed_AccessKey ak)"
| "well_formed_Action (DeleteKey pk) = well_formed_PublicKey pk"
| "well_formed_Action (DeleteAccount beneficiaryId) = well_formed_string beneficiaryId"
| "well_formed_Action (Delegate d) = well_formed_SignedDelegateAction d"
| "well_formed_SignedDelegateAction (SignedDelegateAction da sg) =
     (well_formed_DelegateAction da \<and> well_formed_Signature sg)"
| "well_formed_DelegateAction (DelegateAction senderId rid acts n bh pk) =
     (well_formed_string senderId \<and> well_formed_string rid \<and> length acts < 2 ^ 32 \<and>
      list_all well_formed_NonDelegateAction acts \<and> n < 2 ^ 64 \<and> length bh = 32 \<and>
      well_formed_PublicKey pk)"
| "well_formed_NonDelegateAction (NonDelegateAction a) = well_formed_Action a"



text \<open>
  What \<open>decode\<close> returns for the encoding of an entity: the entity with every value of
  a byte field as the reader of \<open>['u8']\<close> returns it, a plain array of the same bytes as
  numbers. An array of byte numbers stays as it is.
\<close>

fun decoded_bytes_js :: "js \<Rightarrow> js" where
  "decoded_bytes_js (JUint8Array bs) = numbers bs"
| "decoded_bytes_js (JShared n v) = decoded_bytes_js v"
| "decoded_bytes_js v = v"

fun decoded_Action :: "Action \<Rightarrow> Action"
  and decoded_SignedDelegateAction :: "SignedDelegateAction \<Rightarrow> SignedDelegateAction"
  and decoded_DelegateAction :: "DelegateAction \<Rightarrow> DelegateAction"
  and decoded_NonDelegateAction :: "NonDelegateAction \<Rightarrow> NonDelegateAction"
where
  "decoded_Action (DeployContract code) = DeployContract (decoded_bytes_js code)"
| "decoded_Action (FunctionCall methodName args gas deposit) =
     FunctionCall methodName (decoded_bytes_js args) gas deposit"
| "decoded_Action (Delegate d) = Delegate (decoded_SignedDelegateAction d)"
| "decoded_Action CreateAccount = CreateAccount"
| "decoded_Action (Transfer deposit) = Transfer deposit"
| "decoded_Action (Stake stake' pk) = Stake stake' pk"
| "decoded_Action (AddKey pk ak) = AddKey pk ak"
| "decoded_Action (DeleteKey pk) = DeleteKey pk"
| "decoded_Action (DeleteAccount beneficiaryId) = DeleteAccount beneficiaryId"
| "decoded_SignedDelegateAction (SignedDelegateAction da sg) =
     SignedDelegateAction (decoded_DelegateAction da) sg"
| "decoded_DelegateAction (DelegateAction senderId rid acts n bh pk) =
     DelegateAction senderId rid (map decoded_NonDelegateAction acts) n bh pk"
| "decoded_NonDelegateAction (NonDelegateAction a) = NonDelegateAction (decoded_Action a)"



text \<open>
  \<open>decodes e r x\<close>: the encoding \<open>e\<close> succeeded, and the reader \<open>r\<close>, given a depth bound
  of at least the length of the encoding, reads \<open>x\<close> back from the front of any input
  that starts with it and leaves the rest.
\<close>

definition decodes :: "error + bytes \<Rightarrow> (nat \<Rightarrow> 'a reader) \<Rightarrow> 'a \<Rightarrow> bool" where
  "decodes e r x \<longleftrightarrow>
     (\<exists>b. e = Inr b \<and> (\<forall>k rest. length b \<le> k \<longrightarrow> r k (b @ rest) = Inr (x, rest)))"

text \<open>
  \<open>within_depth n r\<close>: on an input of at most \<open>n\<close> bytes the reader \<open>r\<close> does not stop
  at the depth bound, and what it leaves is not longer than what it was given.
\<close>

definition within_depth :: "nat \<Rightarrow> 'a reader \<Rightarrow> bool" where
  "within_depth n r \<longleftrightarrow>
     (\<forall>bs. length bs \<le> n \<longrightarrow>
        r bs \<noteq> Inl OutOfFuel \<and> (\<forall>x rest. r bs = Inr (x, rest) \<longrightarrow> length rest \<le> length bs))"

section \<open>Concrete inputs for the examples\<close>

text \<open>
  The closed examples need a hash function, a \<open>JSON.stringify\<close>, a signer and a local
  key. \<open>stub_sha256\<close> stands in for the hash: like SHA-256 it returns 32 bytes.
  \<open>stub_JSON_stringify\<close> agrees with \<open>JSON.stringify\<close> on the values the examples
  pass to it: \<open>{}\<close>, \<open>null\<close>, the object \<open>two_arrays\<close>, which is
  \<open>{byteLength: [], length: []}\<close> with two different empty arrays, a BigInt and a
  function. \<open>stub_signer\<close> and \<open>stub_key_pair\<close> return a
  fixed key and fixed signature bytes. \<open>recording\<close> wraps a signer and keeps, next to the
  signer's own state, the list of the messages handed to \<open>signMessage\<close>.
\<close>

definition stub_sha256 :: "bytes \<Rightarrow> bytes" where
  "stub_sha256 message = replicate 32 0"

definition two_arrays :: js where
  "two_arrays = JObject [(''byteLength'', JArray []), (''length'', JArray [])]"

definition two_arrays_json :: string where
  "two_arrays_json =
     ''{'' @ [CHR 0x22] @ ''byteLength'' @ [CHR 0x22] @ '':[],'' @ [CHR 0x22] @ ''length'' @
     [CHR 0x22] @ '':[]}''"

definition stub_JSON_stringify :: "js \<Rightarrow> error + string option" where
  "stub_JSON_stringify v =
     (if v = JObject [] then Inr (Some ''{}'')
      else if v = JNull then Inr (Some ''null'')
      else if v = two_arrays then Inr (Some two_arrays_json)
      else (case v of JBigInt n \<Rightarrow> Inl TypeError | _ \<Rightarrow> Inr None))"

definition stub_signer :: "PublicKey \<Rightarrow> bytes \<Rightarrow> unit Signer" where
  "stub_signer k S =
     \<lparr>Signer.getPublicKey = (\<lambda>accountId networkId s. (Inr k, s)),
      signMessage = (\<lambda>message accountId networkId s.
        (Inr \<lparr>KeyPairSignature.signature = S, KeyPairSignature.publicKey = k\<rparr>, s))\<rparr>"

definition stub_key_pair :: "PublicKey \<Rightarrow> bytes \<Rightarrow> KeyPair" where
  "stub_key_pair k S =
     \<lparr>KeyPair.getPublicKey = k,
      sign = (\<lambda>message. \<lparr>KeyPairSignature.signature = S, KeyPairSignature.publicKey = k\<rparr>)\<rparr>"

definition recording :: "'s Signer \<Rightarrow> ('s \<times> bytes list) Signer" where
  "recording signer =
     \<lparr>Signer.getPublicKey = (\<lambda>accountId networkId (s, log).
        (case Signer.getPublicKey signer accountId networkId s of (r, s') \<Rightarrow> (r, (s', log)))),
      signMessage = (\<lambda>message accountId networkId (s, log).
        (case signMessage signer message accountId networkId s of
           (r, s') \<Rightarrow> (r, (s', log @ [message]))))\<rparr>"

definition example_key :: PublicKey where
  "example_key = \<lparr>PublicKey.keyType = 0, PublicKey.data = replicate 32 1\<rparr>"

definition example_signature :: Signature where
  "example_signature = \<lparr>Signature.keyType = 0, Signature.data = replicate 64 7\<rparr>"

definition example_access_key :: AccessKey where
  "example_access_key = functionCallAccessKey ''contract.test'' [''foo'', ''bar''] None"

definition example_delegate :: Action where
  "example_delegate =
     Delegate (SignedDelegateAction
       (DelegateAction ''alice.test'' ''bob.test''
          [NonDelegateAction (Transfer 1), NonDelegateAction CreateAccount]
          5 (replicate 32 2) example_key)
       example_signature)"




definition small_transaction :: Transaction where
  "small_transaction =
     createTransaction (Some ''alice.test'') example_key ''bob.test'' 7 [Transfer 1000]
       (replicate 32 3)"

definition small_delegate :: DelegateAction where
  "small_delegate = DelegateAction ''a'' ''b'' [] 5 (replicate 32 2) example_key"

section \<open>The codec reads back what it wrote\<close>

lemma length_le_bytes: "length (le_bytes w n) = w"
  by (induction w arbitrary: n) auto

lemma le_nat_le_bytes: "n < 256 ^ w \<Longrightarrow> le_nat (le_bytes w n) = n"
proof (induction w arbitrary: n)
  case 0
  then show ?case by simp
next
  case (Suc w)
  have "n div 256 < 256 ^ w"
    using Suc.prems by (simp add: less_mult_imp_div_less mult.commute)
  then have "le_nat (le_bytes w (n div 256)) = n div 256"
    by (rule Suc.IH)
  moreover have "unat (of_nat (n mod 256) :: byte) = n mod 256"
    by (simp add: unat_of_nat)
  ultimately show ?case by simp
qed

lemma utf8_decode_utf8: "utf8_decode (utf8 s) = s"
proof -
  have "char_of (unat (of_nat (of_char c) :: byte)) = c" for c :: char
    by (simp add: unat_of_nat)
  then show ?thesis
    by (simp add: utf8_def utf8_decode_def map_idI)
qed

lemma length_utf8: "length (utf8 s) = length s"
  by (simp add: utf8_def)

lemma readFixedArray_append: "length b = w \<Longrightarrow> readFixedArray w (b @ rest) = Inr (b, rest)"
  by (simp add: readFixedArray_def)

lemma decodes_I:
  "e = Inr b \<Longrightarrow> (\<And>k rest. length b \<le> k \<Longrightarrow> r k (b @ rest) = Inr (x, rest)) \<Longrightarrow> decodes e r x"
  by (auto simp: decodes_def)

lemma decodes_UInt: "n < 256 ^ w \<Longrightarrow> decodes (writeUInt w n) (\<lambda>k. readUInt w) n"
  by (simp add: decodes_def writeUInt_def readUInt_def bind_def readFixedArray_append
      length_le_bytes le_nat_le_bytes)

lemma decodes_U32: "n < 2 ^ 32 \<Longrightarrow> decodes (writeU32 n) (\<lambda>k. readU32) n"
  using decodes_UInt [of n 4] by (simp add: writeU32_def readU32_def)

lemma decodes_U64: "n < 2 ^ 64 \<Longrightarrow> decodes (writeU64 n) (\<lambda>k. readU64) n"
  using decodes_UInt [of n 8] by (simp add: writeU64_def readU64_def)

lemma decodes_U128: "n < 2 ^ 128 \<Longrightarrow> decodes (writeU128 n) (\<lambda>k. readU128) n"
  using decodes_UInt [of n 16] by (simp add: writeU128_def readU128_def)

lemma decodes_U8: "decodes (writeU8 b) (\<lambda>k. readU8) b"
  by (simp add: decodes_def writeU8_def readU8_def)

lemma decodes_FixedArray: "length b = w \<Longrightarrow> decodes (writeFixedArray w b) (\<lambda>k. readFixedArray w) b"
  by (simp add: decodes_def writeFixedArray_def readFixedArray_append)

lemma decodes_nil: "decodes (struct []) (\<lambda>k bs. Inr (y, bs)) y"
  by (simp add: decodes_def)

lemma decodes_struct:
  assumes "decodes e r x" and "decodes (struct es) (\<lambda>k. c k x) y"
  shows "decodes (struct (e # es)) (\<lambda>k bs. bind (r k bs) (c k)) y"
proof -
  from assms(1) obtain b1 where e: "e = Inr b1"
    and r: "\<And>k rest. length b1 \<le> k \<Longrightarrow> r k (b1 @ rest) = Inr (x, rest)"
    by (auto simp: decodes_def)
  from assms(2) obtain b2 where es: "struct es = Inr b2"
    and c: "\<And>k rest. length b2 \<le> k \<Longrightarrow> c k x (b2 @ rest) = Inr (y, rest)"
    by (auto simp: decodes_def)
  show ?thesis
  proof (rule decodes_I)
    show "struct (e # es) = Inr (b1 @ b2)" by (simp add: e es)
  next
    fix k rest assume "length (b1 @ b2) \<le> k"
    then show "bind (r k ((b1 @ b2) @ rest)) (c k) = Inr (y, rest)"
      by (simp add: r c bind_def)
  qed
qed

lemma decodes_map:
  "decodes e r x \<Longrightarrow> decodes e (\<lambda>k bs. bind (r k bs) (\<lambda>v rest. Inr (f v, rest))) (f x)"
  by (auto simp: decodes_def bind_def)

lemma decodes_String:
  assumes "well_formed_string s"
  shows "decodes (writeString (Some s)) (\<lambda>k. readString) s"
proof -
  from assms have len: "length (utf8 s) < 256 ^ 4"
    by (simp add: well_formed_string_def length_utf8)
  then show ?thesis
    by (simp add: decodes_def writeString_def writeU32_def writeUInt_def readString_def
        readU32_def readUInt_def bind_def readFixedArray_append length_le_bytes le_nat_le_bytes
        utf8_decode_utf8)
qed

lemma decodes_elems_map:
  assumes "\<And>x. x \<in> set xs \<Longrightarrow> decodes (enc x) dec (g x)"
  shows "decodes (struct (map enc xs)) (\<lambda>k. readElems (dec k) (length xs)) (map g xs)"
  using assms
proof (induction xs)
  case Nil
  then show ?case by (simp add: decodes_def)
next
  case (Cons x xs)
  have hd: "decodes (enc x) dec (g x)" using Cons.prems by simp
  have tl: "decodes (struct (map enc xs)) (\<lambda>k. readElems (dec k) (length xs)) (map g xs)"
    using Cons by simp
  from hd obtain b1 where e: "enc x = Inr b1"
    and r: "\<And>k rest. length b1 \<le> k \<Longrightarrow> dec k (b1 @ rest) = Inr (g x, rest)"
    by (auto simp: decodes_def)
  from tl obtain b2 where es: "struct (map enc xs) = Inr b2"
    and c: "\<And>k rest. length b2 \<le> k \<Longrightarrow>
              readElems (dec k) (length xs) (b2 @ rest) = Inr (map g xs, rest)"
    by (auto simp: decodes_def)
  show ?case
  proof (rule decodes_I)
    show "struct (map enc (x # xs)) = Inr (b1 @ b2)" by (simp add: e es)
  next
    fix k rest assume "length (b1 @ b2) \<le> k"
    then show "readElems (dec k) (length (x # xs)) ((b1 @ b2) @ rest) = Inr (map g (x # xs), rest)"
      by (simp add: r c bind_def)
  qed
qed

lemma decodes_Array_map:
  assumes "length xs < 2 ^ 32" and "\<And>x. x \<in> set xs \<Longrightarrow> decodes (enc x) dec (g x)"
  shows "decodes (writeArray (map enc xs)) (\<lambda>k. readArray (dec k)) (map g xs)"
proof -
  have "decodes (struct (writeU32 (length (map enc xs)) # map enc xs))
          (\<lambda>k bs. bind (readU32 bs) (\<lambda>len. readElems (dec k) len)) (map g xs)"
    by (rule decodes_struct [where x = "length xs"])
       (use assms in \<open>simp_all add: decodes_U32 decodes_elems_map\<close>)
  then show ?thesis
    by (simp add: writeArray_def readArray_def [abs_def])
qed

lemma decodes_Array:
  assumes "length xs < 2 ^ 32" and "\<And>x. x \<in> set xs \<Longrightarrow> decodes (enc x) dec x"
  shows "decodes (writeArray (map enc xs)) (\<lambda>k. readArray (dec k)) xs"
  using decodes_Array_map [of xs enc dec "\<lambda>x. x"] assms by simp

lemma decodes_Bytes: "length bs < 2 ^ 32 \<Longrightarrow> decodes (writeBytes bs) (\<lambda>k. readBytes) bs"
  using decodes_Array [of bs writeU8 "\<lambda>k. readU8"]
  by (simp add: writeBytes_def readBytes_def decodes_U8)

lemma decodes_Option:
  assumes "\<And>x. v = Some x \<Longrightarrow> decodes (enc x) (\<lambda>k. dec) x"
  shows "decodes (writeOption enc v) (\<lambda>k. readOption dec) v"
proof (cases v)
  case None
  then show ?thesis
    by (simp add: decodes_def writeOption_def writeU8_def readOption_def readU8_def bind_def)
next
  case (Some x)
  with assms [OF Some] show ?thesis
    by (auto simp: decodes_def writeOption_def writeU8_def readOption_def readU8_def bind_def)
qed

lemma decodes_PublicKey:
  assumes "well_formed_PublicKey k"
  shows "decodes (serialize_PublicKey k) (\<lambda>n. deserialize_PublicKey) k"
proof -
  have d: "decodes (writeFixedArray 32 (PublicKey.data k)) (\<lambda>k. readFixedArray 32) (PublicKey.data k)"
    using assms by (intro decodes_FixedArray) (simp add: well_formed_PublicKey_def)
  have "decodes (serialize_PublicKey k) (\<lambda>n. deserialize_PublicKey)
     \<lparr>PublicKey.keyType = PublicKey.keyType k, PublicKey.data = PublicKey.data k\<rparr>"
    unfolding serialize_PublicKey_def deserialize_PublicKey_def [abs_def]
    by (intro decodes_struct [OF decodes_U8] decodes_struct [OF d] decodes_nil)
  then show ?thesis by (cases k) simp
qed

lemma decodes_Signature:
  assumes "well_formed_Signature s"
  shows "decodes (serialize_Signature s) (\<lambda>n. deserialize_Signature) s"
proof -
  have d: "decodes (writeFixedArray 64 (Signature.data s)) (\<lambda>k. readFixedArray 64) (Signature.data s)"
    using assms by (intro decodes_FixedArray) (simp add: well_formed_Signature_def)
  have "decodes (serialize_Signature s) (\<lambda>n. deserialize_Signature)
     \<lparr>Signature.keyType = Signature.keyType s, Signature.data = Signature.data s\<rparr>"
    unfolding serialize_Signature_def deserialize_Signature_def [abs_def]
    by (intro decodes_struct [OF decodes_U8] decodes_struct [OF d] decodes_nil)
  then show ?thesis by (cases s) simp
qed

lemma decodes_FunctionCallPermission:
  assumes "well_formed_FunctionCallPermission p"
  shows "decodes (serialize_FunctionCallPermission p) (\<lambda>n. deserialize_FunctionCallPermission) p"
proof -
  have al: "decodes (writeOption writeU128 (allowance p)) (\<lambda>k. readOption readU128) (allowance p)"
    using assms by (intro decodes_Option decodes_U128) (simp add: well_formed_FunctionCallPermission_def)
  have rid: "decodes (writeString (Some (FunctionCallPermission.receiverId p))) (\<lambda>k. readString)
      (FunctionCallPermission.receiverId p)"
    using assms by (intro decodes_String) (simp add: well_formed_FunctionCallPermission_def)
  have ms: "decodes (writeArray (map (\<lambda>m. writeString (Some m)) (methodNames p)))
      (\<lambda>k. readArray readString) (methodNames p)"
    using assms by (intro decodes_Array decodes_String)
      (simp_all add: well_formed_FunctionCallPermission_def list_all_iff)
  have "decodes (serialize_FunctionCallPermission p) (\<lambda>n. deserialize_FunctionCallPermission)
     \<lparr>allowance = allowance p, receiverId = FunctionCallPermission.receiverId p,
      methodNames = methodNames p\<rparr>"
    unfolding serialize_FunctionCallPermission_def deserialize_FunctionCallPermission_def [abs_def]
    by (intro decodes_struct [OF al] decodes_struct [OF rid] decodes_struct [OF ms] decodes_nil)
  then show ?thesis by (cases p) simp
qed

declare struct.simps [simp del]

lemma decodes_single: "decodes e r x \<Longrightarrow> decodes (struct [e]) r x"
  by (auto simp: decodes_def struct.simps)

lemma decodes_Enum:
  assumes idx: "index_of name values = Some i"
    and body: "decodes body (\<lambda>k. c k (of_nat i)) x"
    and r: "\<And>k bs. r (Suc k) bs = bind (readU8 bs) (c k)"
  shows "decodes (writeEnum values name body) r x"
proof -
  from body obtain b where b: "body = Inr b"
    and c: "\<And>k rest. length b \<le> k \<Longrightarrow> c k (of_nat i) (b @ rest) = Inr (x, rest)"
    by (auto simp: decodes_def)
  show ?thesis
  proof (rule decodes_I)
    show "writeEnum values name body = Inr (of_nat i # b)"
      by (simp add: writeEnum_def idx b struct.simps writeU8_def)
  next
    fix k rest assume "length (of_nat i # b) \<le> k"
    then obtain k' where k: "k = Suc k'" and "length b \<le> k'"
      by (cases k) auto
    then show "r k ((of_nat i # b) @ rest) = Inr (x, rest)"
      by (simp add: r c bind_def readU8_def)
  qed
qed

lemma decodes_AccessKeyPermission:
  assumes "well_formed_AccessKeyPermission p"
  shows "decodes (serialize_AccessKeyPermission p) (\<lambda>n. deserialize_AccessKeyPermission) p"
proof -
  let ?c = "\<lambda>(k::nat) idx rest.
       if unat idx \<ge> length AccessKeyPermission_values then Inl UnknownDiscriminant
       else if idx = 0 then
         bind (deserialize_FunctionCallPermission rest) (\<lambda>p rest.
           Inr (Perm_functionCall p, rest))
       else Inr (Perm_fullAccess, rest)"
  have r: "deserialize_AccessKeyPermission bs = bind (readU8 bs) (?c k)" for k bs
    by (simp add: deserialize_AccessKeyPermission_def)
  show ?thesis
  proof (cases p)
    case (Perm_functionCall fp)
    have "decodes (serialize_FunctionCallPermission fp)
       (\<lambda>k bs. bind (deserialize_FunctionCallPermission bs) (\<lambda>v rest. Inr (Perm_functionCall v, rest)))
       (Perm_functionCall fp)"
      using assms Perm_functionCall
      by (intro decodes_map decodes_FunctionCallPermission) simp
    then have "decodes (serialize_FunctionCallPermission fp) (\<lambda>k. ?c k (of_nat 0)) (Perm_functionCall fp)"
      by (simp add: AccessKeyPermission_values_def)
    then show ?thesis
      unfolding Perm_functionCall serialize_AccessKeyPermission.simps
      by (rule decodes_Enum [where c = ?c, rotated]) (simp_all add: AccessKeyPermission_values_def r)
  next
    case Perm_fullAccess
    have "decodes (struct []) (\<lambda>k bs. Inr (Perm_fullAccess, bs)) Perm_fullAccess"
      by (rule decodes_nil)
    then have "decodes (struct []) (\<lambda>k. ?c k (of_nat 1)) Perm_fullAccess"
      by (simp add: AccessKeyPermission_values_def)
    then show ?thesis
      unfolding Perm_fullAccess serialize_AccessKeyPermission.simps
      by (rule decodes_Enum [where c = ?c, rotated]) (simp_all add: AccessKeyPermission_values_def r)
  qed
qed

lemma decodes_AccessKey:
  assumes "well_formed_AccessKey k"
  shows "decodes (serialize_AccessKey k) (\<lambda>n. deserialize_AccessKey) k"
proof -
  have n: "decodes (writeU64 (AccessKey.nonce k)) (\<lambda>k. readU64) (AccessKey.nonce k)"
    using assms by (intro decodes_U64) (simp add: well_formed_AccessKey_def)
  have p: "decodes (serialize_AccessKeyPermission (permission k))
      (\<lambda>n. deserialize_AccessKeyPermission) (permission k)"
    using assms by (intro decodes_AccessKeyPermission) (simp add: well_formed_AccessKey_def)
  have "decodes (serialize_AccessKey k) (\<lambda>n. deserialize_AccessKey)
     \<lparr>AccessKey.nonce = AccessKey.nonce k, permission = permission k\<rparr>"
    unfolding serialize_AccessKey_def deserialize_AccessKey_def [abs_def]
    by (intro decodes_struct [OF n] decodes_struct [OF p] decodes_nil)
  then show ?thesis by (cases k) simp
qed

lemma writeU8_js_uint: "writeU8_js (JNum (uint (b :: byte))) = writeU8 b"
proof -
  have "uint b < 256" using uint_bounded [of b] by simp
  then have "uint b \<le> 255" by simp
  then show ?thesis by simp
qed

lemma writeBytes_js_numbers: "writeBytes_js (numbers bs) = writeBytes bs"
  by (simp add: numbers_def writeBytes_def writeU8_js_uint comp_def del: writeU8_js.simps)

lemma byte_numbers:
  "list_all is_byte_number xs \<Longrightarrow> \<exists>bs. xs = map (\<lambda>b :: byte. JNum (uint b)) bs"
proof (induction xs)
  case Nil
  then show ?case by simp
next
  case (Cons x xs)
  then obtain bs where bs: "xs = map (\<lambda>b :: byte. JNum (uint b)) bs" by auto
  from Cons.prems obtain n where x: "x = JNum n" and n: "0 \<le> n" "n \<le> 255"
    by (cases x) auto
  have "uint (of_int n :: byte) = n"
    using n by (simp add: uint_word_of_int take_bit_int_eq_self)
  then have "x # xs = map (\<lambda>b :: byte. JNum (uint b)) (of_int n # bs)"
    by (simp add: x bs)
  then show ?case by (rule exI [of _ "of_int n # bs"])
qed

lemma decodes_numbers:
  "length bs < 2 ^ 32 \<Longrightarrow> decodes (writeBytes bs) (\<lambda>k. readBytes_js) (numbers bs)"
  unfolding readBytes_js_def [abs_def]
  by (rule decodes_map [where r = "\<lambda>k. readBytes"]) (rule decodes_Bytes)

lemma decodes_bytes_js:
  "well_formed_bytes_js v \<Longrightarrow> decodes (writeBytes_js v) (\<lambda>k. readBytes_js) (decoded_bytes_js v)"
proof (induction v rule: well_formed_bytes_js.induct)
  case (1 bs)
  then show ?case by (simp add: decodes_numbers)
next
  case (2 xs)
  then obtain bs where xs: "xs = map (\<lambda>b :: byte. JNum (uint b)) bs"
    using byte_numbers by auto
  then have eq: "JArray xs = numbers bs" by (simp add: numbers_def)
  have "length bs < 2 ^ 32" using 2 xs by simp
  then have "decodes (writeBytes_js (numbers bs)) (\<lambda>k. readBytes_js) (numbers bs)"
    using decodes_numbers [of bs] by (simp only: writeBytes_js_numbers)
  then have "decodes (writeBytes_js (JArray xs)) (\<lambda>k. readBytes_js) (JArray xs)"
    by (simp only: eq)
  then show ?case by (simp only: decoded_bytes_js.simps)
next
  case (3 n v)
  then show ?case by simp
qed simp_all

lemma decodes_DeployContract:
  assumes "well_formed_bytes_js code"
  shows "decodes (struct [writeBytes_js code]) (\<lambda>k. deserialize_DeployContract)
           (DeployContract (decoded_bytes_js code))"
  unfolding deserialize_DeployContract_def [abs_def]
  by (intro decodes_struct [OF decodes_bytes_js [OF assms]] decodes_nil)

lemma decodes_FunctionCall:
  assumes "well_formed_Action (FunctionCall methodName args gas deposit)"
  shows "decodes (struct [writeString (Some methodName), writeBytes_js args, writeU64 gas,
                writeU128 deposit]) (\<lambda>k. deserialize_FunctionCall)
           (FunctionCall methodName (decoded_bytes_js args) gas deposit)"
proof -
  have a: "decodes (writeBytes_js args) (\<lambda>k. readBytes_js) (decoded_bytes_js args)"
    using assms by (intro decodes_bytes_js) simp
  have m: "decodes (writeString (Some methodName)) (\<lambda>k. readString) methodName"
    using assms by (intro decodes_String) simp
  have g: "decodes (writeU64 gas) (\<lambda>k. readU64) gas"
    using assms by (intro decodes_U64) simp
  have d: "decodes (writeU128 deposit) (\<lambda>k. readU128) deposit"
    using assms by (intro decodes_U128) simp
  show ?thesis
    unfolding deserialize_FunctionCall_def [abs_def]
    by (intro decodes_struct [OF m] decodes_struct [OF a] decodes_struct [OF g]
        decodes_struct [OF d] decodes_nil)
qed

lemma decodes_Transfer:
  assumes "deposit < 2 ^ 128"
  shows "decodes (struct [writeU128 deposit]) (\<lambda>k. deserialize_Transfer) (Transfer deposit)"
  unfolding deserialize_Transfer_def [abs_def]
  by (intro decodes_struct [OF decodes_U128 [OF assms]] decodes_nil)

lemma decodes_Stake:
  assumes "s < 2 ^ 128" and "well_formed_PublicKey pk"
  shows "decodes (struct [writeU128 s, serialize_PublicKey pk]) (\<lambda>k. deserialize_Stake) (Stake s pk)"
  unfolding deserialize_Stake_def [abs_def]
  by (intro decodes_struct [OF decodes_U128 [OF assms(1)]]
      decodes_struct [OF decodes_PublicKey [OF assms(2)]] decodes_nil)

lemma decodes_AddKey:
  assumes "well_formed_PublicKey pk" and "well_formed_AccessKey ak"
  shows "decodes (struct [serialize_PublicKey pk, serialize_AccessKey ak]) (\<lambda>k. deserialize_AddKey)
     (AddKey pk ak)"
  unfolding deserialize_AddKey_def [abs_def]
  by (intro decodes_struct [OF decodes_PublicKey [OF assms(1)]]
      decodes_struct [OF decodes_AccessKey [OF assms(2)]] decodes_nil)

lemma decodes_DeleteKey:
  assumes "well_formed_PublicKey pk"
  shows "decodes (struct [serialize_PublicKey pk]) (\<lambda>k. deserialize_DeleteKey) (DeleteKey pk)"
  unfolding deserialize_DeleteKey_def [abs_def]
  by (intro decodes_struct [OF decodes_PublicKey [OF assms]] decodes_nil)

lemma decodes_DeleteAccount:
  assumes "well_formed_string b"
  shows "decodes (struct [writeString (Some b)]) (\<lambda>k. deserialize_DeleteAccount) (DeleteAccount b)"
  unfolding deserialize_DeleteAccount_def [abs_def]
  by (intro decodes_struct [OF decodes_String [OF assms]] decodes_nil)

lemma decodes_Action_I:
  assumes body: "decodes body rd x"
    and idx: "index_of name Action_values = Some i"
    and r: "\<And>k rest. deserialize_Action (Suc k) (of_nat i # rest) = rd k rest"
  shows "decodes (writeEnum Action_values name body) deserialize_Action x"
proof -
  from body obtain b where b: "body = Inr b"
    and c: "\<And>k rest. length b \<le> k \<Longrightarrow> rd k (b @ rest) = Inr (x, rest)"
    by (auto simp: decodes_def)
  show ?thesis
  proof (rule decodes_I)
    show "writeEnum Action_values name body = Inr (of_nat i # b)"
      by (simp add: writeEnum_def idx b struct.simps writeU8_def)
  next
    fix k rest assume "length (of_nat i # b) \<le> k"
    then obtain k' where k: "k = Suc k'" and "length b \<le> k'"
      by (cases k) auto
    then show "deserialize_Action k ((of_nat i # b) @ rest) = Inr (x, rest)"
      using r [of k' "b @ rest"] by (simp add: c)
  qed
qed

lemmas Action_tag_simps = Action_values_def readU8_def bind_def

lemma decodes_Action:
  "well_formed_Action a \<Longrightarrow> decodes (serialize_Action a) deserialize_Action (decoded_Action a)"
  and decodes_SignedDelegateAction: "well_formed_SignedDelegateAction d \<Longrightarrow>
    decodes (serialize_SignedDelegateAction d)
      (\<lambda>k. deserialize_SignedDelegateAction (deserialize_Action k))
      (decoded_SignedDelegateAction d)"
  and decodes_DelegateAction: "well_formed_DelegateAction da \<Longrightarrow>
    decodes (serialize_DelegateAction da)
      (\<lambda>k. deserialize_DelegateAction (deserialize_Action k)) (decoded_DelegateAction da)"
  and decodes_NonDelegateAction: "well_formed_NonDelegateAction n \<Longrightarrow>
    decodes (serialize_NonDelegateAction n)
      (\<lambda>k. deserialize_NonDelegateAction (deserialize_Action k)) (decoded_NonDelegateAction n)"
proof (induction a and d and da and n)
  case CreateAccount
  have "decodes (struct []) (\<lambda>k rest. Inr (CreateAccount, rest)) CreateAccount"
    by (rule decodes_nil)
  then show ?case
    unfolding serialize_Action.simps decoded_Action.simps
    by (rule decodes_Action_I [where i = 0]) (simp_all add: Action_tag_simps)
next
  case (DeployContract code)
  then have "decodes (struct [writeBytes_js code]) (\<lambda>k. deserialize_DeployContract)
      (DeployContract (decoded_bytes_js code))"
    by (intro decodes_DeployContract) simp
  then show ?case
    unfolding serialize_Action.simps decoded_Action.simps
    by (rule decodes_Action_I [where i = 1]) (simp_all add: Action_tag_simps)
next
  case (FunctionCall methodName args gas deposit)
  then have "decodes (struct [writeString (Some methodName), writeBytes_js args, writeU64 gas,
      writeU128 deposit]) (\<lambda>k. deserialize_FunctionCall)
      (FunctionCall methodName (decoded_bytes_js args) gas deposit)"
    by (rule decodes_FunctionCall)
  then show ?case
    unfolding serialize_Action.simps decoded_Action.simps
    by (rule decodes_Action_I [where i = 2]) (simp_all add: Action_tag_simps)
next
  case (Transfer deposit)
  then have "decodes (struct [writeU128 deposit]) (\<lambda>k. deserialize_Transfer) (Transfer deposit)"
    by (intro decodes_Transfer) simp
  then show ?case
    unfolding serialize_Action.simps decoded_Action.simps
    by (rule decodes_Action_I [where i = 3]) (simp_all add: Action_tag_simps)
next
  case (Stake s pk)
  then have "decodes (struct [writeU128 s, serialize_PublicKey pk]) (\<lambda>k. deserialize_Stake) (Stake s pk)"
    by (intro decodes_Stake) simp_all
  then show ?case
    unfolding serialize_Action.simps decoded_Action.simps
    by (rule decodes_Action_I [where i = 4]) (simp_all add: Action_tag_simps)
next
  case (AddKey pk ak)
  then have "decodes (struct [serialize_PublicKey pk, serialize_AccessKey ak])
      (\<lambda>k. deserialize_AddKey) (AddKey pk ak)"
    by (intro decodes_AddKey) simp_all
  then show ?case
    unfolding serialize_Action.simps decoded_Action.simps
    by (rule decodes_Action_I [where i = 5]) (simp_all add: Action_tag_simps)
next
  case (DeleteKey pk)
  then have "decodes (struct [serialize_PublicKey pk]) (\<lambda>k. deserialize_DeleteKey) (DeleteKey pk)"
    by (intro decodes_DeleteKey) simp
  then show ?case
    unfolding serialize_Action.simps decoded_Action.simps
    by (rule decodes_Action_I [where i = 6]) (simp_all add: Action_tag_simps)
next
  case (DeleteAccount b)
  then have "decodes (struct [writeString (Some b)]) (\<lambda>k. deserialize_DeleteAccount) (DeleteAccount b)"
    by (intro decodes_DeleteAccount) simp
  then show ?case
    unfolding serialize_Action.simps decoded_Action.simps
    by (rule decodes_Action_I [where i = 7]) (simp_all add: Action_tag_simps)
next
  case (Delegate d)
  then have "decodes (serialize_SignedDelegateAction d)
      (\<lambda>k. deserialize_SignedDelegateAction (deserialize_Action k))
      (decoded_SignedDelegateAction d)"
    by simp
  then have "decodes (serialize_SignedDelegateAction d)
      (\<lambda>k bs. bind (deserialize_SignedDelegateAction (deserialize_Action k) bs)
         (\<lambda>v rest. Inr (Delegate v, rest))) (Delegate (decoded_SignedDelegateAction d))"
    by (rule decodes_map)
  then show ?case
    unfolding serialize_Action.simps decoded_Action.simps
    by (rule decodes_Action_I [where i = 8]) (simp_all add: Action_tag_simps)
next
  case (SignedDelegateAction da sg)
  then have da: "decodes (serialize_DelegateAction da)
      (\<lambda>k. deserialize_DelegateAction (deserialize_Action k)) (decoded_DelegateAction da)"
    by simp
  have sg: "decodes (serialize_Signature sg) (\<lambda>k. deserialize_Signature) sg"
    using SignedDelegateAction.prems by (intro decodes_Signature) simp
  show ?case
    unfolding serialize_SignedDelegateAction.simps decoded_SignedDelegateAction.simps
      deserialize_SignedDelegateAction_def [abs_def]
    by (intro decodes_struct [OF da] decodes_struct [OF sg] decodes_nil)
next
  case (DelegateAction senderId rid acts n bh pk)
  note wf = DelegateAction.prems
  have s: "decodes (writeString (Some senderId)) (\<lambda>k. readString) senderId"
    using wf by (intro decodes_String) simp
  have r: "decodes (writeString (Some rid)) (\<lambda>k. readString) rid"
    using wf by (intro decodes_String) simp
  have a: "decodes (writeArray (map serialize_NonDelegateAction acts))
      (\<lambda>k. readArray (deserialize_NonDelegateAction (deserialize_Action k)))
      (map decoded_NonDelegateAction acts)"
  proof (rule decodes_Array_map)
    show "length acts < 2 ^ 32" using wf by simp
  next
    fix x assume "x \<in> set acts"
    then show "decodes (serialize_NonDelegateAction x)
        (\<lambda>k. deserialize_NonDelegateAction (deserialize_Action k)) (decoded_NonDelegateAction x)"
      using wf DelegateAction.IH by (simp add: list_all_iff)
  qed
  have n: "decodes (writeU64 n) (\<lambda>k. readU64) n"
    using wf by (intro decodes_U64) simp
  have b: "decodes (writeFixedArray 32 bh) (\<lambda>k. readFixedArray 32) bh"
    using wf by (intro decodes_FixedArray) simp
  have p: "decodes (serialize_PublicKey pk) (\<lambda>k. deserialize_PublicKey) pk"
    using wf by (intro decodes_PublicKey) simp
  show ?case
    unfolding serialize_DelegateAction.simps decoded_DelegateAction.simps
      deserialize_DelegateAction_def [abs_def]
    by (intro decodes_struct [OF s] decodes_struct [OF r] decodes_struct [OF a]
        decodes_struct [OF n] decodes_struct [OF b] decodes_struct [OF p] decodes_nil)
next
  case (NonDelegateAction a)
  then have a: "decodes (serialize_Action a) deserialize_Action (decoded_Action a)"
    by simp
  show ?case
    unfolding serialize_NonDelegateAction.simps decoded_NonDelegateAction.simps
      deserialize_NonDelegateAction_def [abs_def]
    by (intro decodes_struct [OF a] decodes_nil)
qed








section \<open>The depth bound of the reader is never reached\<close>

lemma within_depth_bind:
  assumes "within_depth n r" and "\<And>x. within_depth n (f x)"
  shows "within_depth n (\<lambda>bs. bind (r bs) f)"
  unfolding within_depth_def
proof (intro allI impI)
  fix bs :: bytes assume len: "length bs \<le> n"
  show "bind (r bs) f \<noteq> Inl OutOfFuel \<and>
    (\<forall>x rest. bind (r bs) f = Inr (x, rest) \<longrightarrow> length rest \<le> length bs)"
  proof (cases "r bs")
    case (Inl e)
    with assms(1) len show ?thesis by (auto simp: within_depth_def bind_def)
  next
    case (Inr p)
    obtain y rest where p: "p = (y, rest)" by (cases p)
    with Inr assms(1) len have rest: "length rest \<le> length bs"
      by (auto simp: within_depth_def)
    with len have "length rest \<le> n" by simp
    with assms(2) [of y] have f: "f y rest \<noteq> Inl OutOfFuel \<and>
        (\<forall>x rest'. f y rest = Inr (x, rest') \<longrightarrow> length rest' \<le> length rest)"
      unfolding within_depth_def by blast
    have "bind (r bs) f = f y rest" by (simp add: bind_def Inr p)
    with f rest show ?thesis by (metis le_trans)
  qed
qed

lemma within_depth_return: "within_depth n (\<lambda>bs. Inr (x, bs))"
  by (simp add: within_depth_def)

lemma within_depth_fail: "e \<noteq> OutOfFuel \<Longrightarrow> within_depth n (\<lambda>bs. Inl e)"
  by (simp add: within_depth_def)

lemma within_depth_if:
  "within_depth n r \<Longrightarrow> within_depth n r' \<Longrightarrow> within_depth n (\<lambda>bs. if c then r bs else r' bs)"
  by (simp add: within_depth_def)

lemma within_depth_FixedArray: "within_depth n (readFixedArray w)"
  by (auto simp: within_depth_def readFixedArray_def)

lemma within_depth_U8: "within_depth n readU8"
  by (auto simp: within_depth_def readU8_def split: list.splits)

lemma within_depth_UInt: "within_depth n (readUInt w)"
  unfolding readUInt_def [abs_def]
  by (intro within_depth_bind within_depth_FixedArray within_depth_return)

lemma within_depth_U32: "within_depth n readU32"
  by (simp add: readU32_def within_depth_UInt)

lemma within_depth_U64: "within_depth n readU64"
  by (simp add: readU64_def within_depth_UInt)

lemma within_depth_U128: "within_depth n readU128"
  by (simp add: readU128_def within_depth_UInt)

lemma within_depth_String: "within_depth n readString"
  unfolding readString_def [abs_def]
  by (intro within_depth_bind within_depth_U32 within_depth_FixedArray within_depth_return)

lemma within_depth_Elems:
  assumes "within_depth n r"
  shows "within_depth n (readElems r m)"
proof (induction m)
  case 0
  show ?case by (simp add: within_depth_def)
next
  case (Suc m)
  have "within_depth n (\<lambda>bs. bind (r bs) (\<lambda>x rest.
      bind (readElems r m rest) (\<lambda>xs rest. Inr (x # xs, rest))))"
    by (intro within_depth_bind assms Suc within_depth_return)
  then show ?case by (simp add: within_depth_def)
qed

lemma within_depth_Array:
  assumes "within_depth n r"
  shows "within_depth n (readArray r)"
  unfolding readArray_def [abs_def]
  by (intro within_depth_bind within_depth_U32 within_depth_Elems assms)

lemma within_depth_Bytes: "within_depth n readBytes"
  by (simp add: readBytes_def within_depth_Array within_depth_U8)

lemma within_depth_Bytes_js: "within_depth n readBytes_js"
  unfolding readBytes_js_def [abs_def]
  by (intro within_depth_bind within_depth_Bytes within_depth_return)

lemma within_depth_Option:
  assumes "within_depth n r"
  shows "within_depth n (readOption r)"
  unfolding readOption_def [abs_def]
  by (intro within_depth_bind within_depth_U8 within_depth_if assms within_depth_return)

lemma within_depth_Signature: "within_depth n deserialize_Signature"
  unfolding deserialize_Signature_def [abs_def]
  by (intro within_depth_bind within_depth_U8 within_depth_FixedArray within_depth_return)

lemma within_depth_PublicKey: "within_depth n deserialize_PublicKey"
  unfolding deserialize_PublicKey_def [abs_def]
  by (intro within_depth_bind within_depth_U8 within_depth_FixedArray within_depth_return)

lemma within_depth_FunctionCallPermission: "within_depth n deserialize_FunctionCallPermission"
  unfolding deserialize_FunctionCallPermission_def [abs_def]
  by (intro within_depth_bind within_depth_Option within_depth_U128 within_depth_String
      within_depth_Array within_depth_return)

lemma within_depth_AccessKeyPermission: "within_depth n deserialize_AccessKeyPermission"
  unfolding deserialize_AccessKeyPermission_def [abs_def]
  by (intro within_depth_bind within_depth_U8 within_depth_if within_depth_fail
      within_depth_FunctionCallPermission within_depth_return) simp

lemma within_depth_AccessKey: "within_depth n deserialize_AccessKey"
  unfolding deserialize_AccessKey_def [abs_def]
  by (intro within_depth_bind within_depth_U64 within_depth_AccessKeyPermission
      within_depth_return)

lemma within_depth_DeployContract: "within_depth n deserialize_DeployContract"
  unfolding deserialize_DeployContract_def [abs_def]
  by (intro within_depth_bind within_depth_Bytes_js within_depth_return)

lemma within_depth_FunctionCall: "within_depth n deserialize_FunctionCall"
  unfolding deserialize_FunctionCall_def [abs_def]
  by (intro within_depth_bind within_depth_String within_depth_Bytes_js within_depth_U64
      within_depth_U128 within_depth_return)

lemma within_depth_Transfer: "within_depth n deserialize_Transfer"
  unfolding deserialize_Transfer_def [abs_def]
  by (intro within_depth_bind within_depth_U128 within_depth_return)

lemma within_depth_Stake: "within_depth n deserialize_Stake"
  unfolding deserialize_Stake_def [abs_def]
  by (intro within_depth_bind within_depth_U128 within_depth_PublicKey within_depth_return)

lemma within_depth_AddKey: "within_depth n deserialize_AddKey"
  unfolding deserialize_AddKey_def [abs_def]
  by (intro within_depth_bind within_depth_PublicKey within_depth_AccessKey within_depth_return)

lemma within_depth_DeleteKey: "within_depth n deserialize_DeleteKey"
  unfolding deserialize_DeleteKey_def [abs_def]
  by (intro within_depth_bind within_depth_PublicKey within_depth_return)

lemma within_depth_DeleteAccount: "within_depth n deserialize_DeleteAccount"
  unfolding deserialize_DeleteAccount_def [abs_def]
  by (intro within_depth_bind within_depth_String within_depth_return)

lemmas within_depth_variants = within_depth_DeployContract within_depth_FunctionCall
  within_depth_Transfer within_depth_Stake within_depth_AddKey within_depth_DeleteKey
  within_depth_DeleteAccount

lemma within_depth_SignedDelegateAction:
  assumes "within_depth n r"
  shows "within_depth n (deserialize_SignedDelegateAction r)"
  unfolding deserialize_SignedDelegateAction_def [abs_def] deserialize_DelegateAction_def [abs_def]
    deserialize_NonDelegateAction_def [abs_def]
  by (intro within_depth_bind within_depth_String within_depth_Array assms within_depth_U64
      within_depth_FixedArray within_depth_PublicKey within_depth_Signature within_depth_return)

lemma within_depth_Action: "within_depth k (deserialize_Action (Suc k))"
proof (induction k)
  case 0
  show ?case
    by (simp add: within_depth_def readU8_def bind_def)
next
  case (Suc k)
  let ?c = "\<lambda>idx rest.
       if unat idx \<ge> length Action_values then Inl UnknownDiscriminant
       else if idx = 0 then Inr (CreateAccount, rest)
       else if idx = 1 then deserialize_DeployContract rest
       else if idx = 2 then deserialize_FunctionCall rest
       else if idx = 3 then deserialize_Transfer rest
       else if idx = 4 then deserialize_Stake rest
       else if idx = 5 then deserialize_AddKey rest
       else if idx = 6 then deserialize_DeleteKey rest
       else if idx = 7 then deserialize_DeleteAccount rest
       else bind (deserialize_SignedDelegateAction (deserialize_Action (Suc k)) rest)
              (\<lambda>d rest. Inr (Delegate d, rest))"
  have d: "within_depth k (\<lambda>rest.
      bind (deserialize_SignedDelegateAction (deserialize_Action (Suc k)) rest)
        (\<lambda>d rest. Inr (Delegate d, rest)))"
    by (rule within_depth_bind [OF within_depth_SignedDelegateAction [OF Suc]])
       (rule within_depth_return)
  have c: "within_depth k (?c idx)" for idx
    apply (rule within_depth_if, rule within_depth_fail, simp)
    apply (rule within_depth_if, rule within_depth_return)
    apply (rule within_depth_if, rule within_depth_DeployContract)
    apply (rule within_depth_if, rule within_depth_FunctionCall)
    apply (rule within_depth_if, rule within_depth_Transfer)
    apply (rule within_depth_if, rule within_depth_Stake)
    apply (rule within_depth_if, rule within_depth_AddKey)
    apply (rule within_depth_if, rule within_depth_DeleteKey)
    apply (rule within_depth_if, rule within_depth_DeleteAccount)
    apply (rule d)
    done
  show ?case
    unfolding within_depth_def
  proof (intro allI impI)
    fix bs :: bytes assume len: "length bs \<le> Suc k"
    show "deserialize_Action (Suc (Suc k)) bs \<noteq> Inl OutOfFuel \<and>
      (\<forall>x rest. deserialize_Action (Suc (Suc k)) bs = Inr (x, rest) \<longrightarrow> length rest \<le> length bs)"
    proof (cases bs)
      case Nil
      then show ?thesis by (simp add: readU8_def bind_def)
    next
      case (Cons idx rest)
      with len have "length rest \<le> k" by simp
      with c [of idx] have "?c idx rest \<noteq> Inl OutOfFuel \<and>
          (\<forall>x rest'. ?c idx rest = Inr (x, rest') \<longrightarrow> length rest' \<le> length rest)"
        unfolding within_depth_def by blast
      moreover have "deserialize_Action (Suc (Suc k)) bs = ?c idx rest"
        by (simp add: Cons readU8_def bind_def)
      ultimately show ?thesis
        using Cons by auto
    qed
  qed
qed


lemma readString_consumes:
  assumes "readString bs = Inr (s, rest)"
  shows "length rest < length bs"
  using assms
  by (auto simp: readString_def readU32_def readUInt_def readFixedArray_def bind_def
      split: if_splits)

lemma within_depth_Transaction: "within_depth k (deserialize_Transaction k)"
  unfolding within_depth_def
proof (intro allI impI)
  fix bs :: bytes assume len: "length bs \<le> k"
  let ?f = "\<lambda>sid rest.
     bind (deserialize_PublicKey rest) (\<lambda>pk rest.
     bind (readU64 rest) (\<lambda>n rest.
     bind (readString rest) (\<lambda>rid rest.
     bind (readFixedArray 32 rest) (\<lambda>bh rest.
     bind (readArray (deserialize_Action k) rest) (\<lambda>acts rest.
       Inr (\<lparr>signerId = Some sid, publicKey = pk, nonce = n, receiverId = rid,
             actions = acts, blockHash = bh\<rparr>, rest))))))"
  have t: "deserialize_Transaction k bs = bind (readString bs) ?f"
    by (simp add: deserialize_Transaction_def)
  show "deserialize_Transaction k bs \<noteq> Inl OutOfFuel \<and>
    (\<forall>x rest. deserialize_Transaction k bs = Inr (x, rest) \<longrightarrow> length rest \<le> length bs)"
  proof (cases "readString bs")
    case (Inl e)
    with within_depth_String [of k] len have "e \<noteq> OutOfFuel"
      by (auto simp: within_depth_def)
    with Inl t show ?thesis by (simp add: bind_def)
  next
    case (Inr p)
    obtain sid rest where p: "p = (sid, rest)" by (cases p)
    from Inr p have shorter: "length rest < length bs"
      by (intro readString_consumes) simp
    with len obtain k' where k: "k = Suc k'" and rest: "length rest \<le> k'"
      by (cases k) auto
    have "within_depth k' (?f sid)"
      unfolding k
      by (intro within_depth_bind within_depth_PublicKey within_depth_U64 within_depth_String
          within_depth_FixedArray within_depth_Array within_depth_Action within_depth_return)
    with rest have "?f sid rest \<noteq> Inl OutOfFuel \<and>
        (\<forall>x rest'. ?f sid rest = Inr (x, rest') \<longrightarrow> length rest' \<le> length rest)"
      unfolding within_depth_def by blast
    moreover have "deserialize_Transaction k bs = ?f sid rest"
      by (simp add: t Inr p bind_def)
    ultimately show ?thesis using shorter by auto
  qed
qed

lemma within_depth_SignedTransaction: "within_depth k (deserialize_SignedTransaction k)"
  unfolding deserialize_SignedTransaction_def [abs_def]
  by (intro within_depth_bind within_depth_Transaction within_depth_Signature within_depth_return)

lemma deserialize_within_depth:
  "within_depth (length bs) r \<Longrightarrow> deserialize r bs \<noteq> Inl OutOfFuel"
  by (auto simp: within_depth_def deserialize_def split: sum.splits)

lemma decode_depth_suffices:
  "Transaction_decode bs \<noteq> Inl OutOfFuel \<and> SignedTransaction_decode bs \<noteq> Inl OutOfFuel"
  by (simp add: Transaction_decode_def SignedTransaction_decode_def deserialize_within_depth
      within_depth_Transaction within_depth_SignedTransaction)

section \<open>Evaluating the writers on the examples\<close>

lemma le_bytes_numeral:
  "le_bytes (numeral w) n = of_nat (n mod 256) # le_bytes (pred_numeral w) (n div 256)"
  by (simp add: numeral_eq_Suc [of w])

lemma replicate_numeral:
  "replicate (numeral k) x = x # replicate (pred_numeral k) x"
  by (simp add: numeral_eq_Suc [of k])

lemmas writer_simps = writeString_def writeU8_def writeU32_def writeU64_def writeU128_def
  writeUInt_def writeFixedArray_def writeArray_def writeBytes_def writeOption_def writeEnum_def
  struct.simps le_bytes_numeral utf8_def

lemma small_transaction_bytes:
  "Transaction_encode small_transaction =
   Inr ([10, 0, 0, 0] @ utf8 ''alice.test'' @ [0] @ replicate 32 1 @ [7, 0, 0, 0, 0, 0, 0, 0] @
        [8, 0, 0, 0] @ utf8 ''bob.test'' @ replicate 32 3 @ [1, 0, 0, 0] @
        [3, 232, 3, 0, 0, 0, 0, 0, 0, 0, 0, 0, 0, 0, 0, 0, 0])"
  by (simp add: writer_simps Transaction_encode_def serialize_Transaction_def small_transaction_def
      createTransaction_def serialize_PublicKey_def example_key_def Action_values_def)

lemma small_transaction_parts:
  "createTransaction (Some ''alice.test'') example_key ''bob.test'' 7 [Transfer 1000] (replicate 32 3)
     = small_transaction"
  by (simp add: small_transaction_def)

lemma small_delegate_bytes:
  "serialize_DelegateAction small_delegate =
     Inr ([1, 0, 0, 0, 97] @ [1, 0, 0, 0, 98] @ [0, 0, 0, 0] @ [5, 0, 0, 0, 0, 0, 0, 0] @
          replicate 32 2 @ [0] @ replicate 32 1)"
  by (simp add: writer_simps small_delegate_def serialize_PublicKey_def example_key_def)

lemma serialize_Transaction_None:
  "signerId t = None \<Longrightarrow> serialize_Transaction t = Inl TypeError"
  by (simp add: serialize_Transaction_def writeString_def struct.simps)

lemma well_formed_example_key: "well_formed_PublicKey example_key"
  by (simp add: well_formed_PublicKey_def example_key_def)

lemma well_formed_example_signature: "well_formed_Signature example_signature"
  by (simp add: well_formed_Signature_def example_signature_def)

lemma well_formed_example_access_key: "well_formed_AccessKey example_access_key"
  by (simp add: well_formed_AccessKey_def example_access_key_def functionCallAccessKey_def
      well_formed_FunctionCallPermission_def well_formed_string_def)

lemma well_formed_example_delegate: "well_formed_Action example_delegate"
  using well_formed_example_key well_formed_example_signature
  by (simp add: example_delegate_def well_formed_string_def)



lemma well_formed_nested_delegate:
  "well_formed_DelegateAction
     (DelegateAction ''alice.test'' ''bob.test'' (map NonDelegateAction [example_delegate]) 1
        (replicate 32 2) (KeyPair.getPublicKey (stub_key_pair example_key (replicate 64 9))))"
  using well_formed_example_key well_formed_example_delegate
  by (simp add: well_formed_string_def stub_key_pair_def)








text \<open>An encoding of an action starts with the index of its key in \<open>Action_values\<close>.\<close>

lemma serialize_Action_first_byte:
  assumes "serialize_Action a = Inr bs"
  shows "bs \<noteq> [] \<and>
    hd bs = (case a of
        CreateAccount \<Rightarrow> 0
      | DeployContract _ \<Rightarrow> 1
      | FunctionCall _ _ _ _ \<Rightarrow> 2
      | Transfer _ \<Rightarrow> 3
      | Stake _ _ \<Rightarrow> 4
      | AddKey _ _ \<Rightarrow> 5
      | DeleteKey _ \<Rightarrow> 6
      | DeleteAccount _ \<Rightarrow> 7
      | Delegate _ \<Rightarrow> 8)"
  using assms
  by (cases a)
     (auto simp: writeEnum_def Action_values_def struct.simps writeU8_def split: sum.splits)

text \<open>The two property reads succeed or throw together.\<close>

lemma prop_length_succeeds: "prop_byteLength args = Inr b \<Longrightarrow> \<exists>l. prop_length args = Inr l"
  by (induction args arbitrary: b rule: prop_byteLength.induct) simp_all

lemma prop_byteLength_nullish:
  "unshared args = JUndefined \<or> unshared args = JNull \<Longrightarrow> prop_byteLength args = Inl TypeError"
  by (induction args rule: prop_byteLength.induct) simp_all

section \<open>The claims\<close>




text \<open>
  C2. The encoding of an \<open>Action\<close> is never empty, and its first byte is the index of the
  variant in the declared order: 0 for \<open>CreateAccount\<close>, 1 for \<open>DeployContract\<close>, 2 for
  \<open>FunctionCall\<close>, 3 for \<open>Transfer\<close>, 4 for \<open>Stake\<close>, 5 for \<open>AddKey\<close>, 6 for
  \<open>DeleteKey\<close>, 7 for \<open>DeleteAccount\<close>, 8 for \<open>Delegate\<close>. Every well-formed action, of
  whichever variant, has an encoding, which starts with that byte; and whenever an
  action, well formed or not, has an encoding, it starts with that byte.
\<close>

theorem action_discriminant:
  "(well_formed_Action a \<longrightarrow>
      (\<exists>bs. serialize_Action a = Inr bs \<and> bs \<noteq> [] \<and>
            hd bs = (case a of
                CreateAccount \<Rightarrow> 0
              | DeployContract _ \<Rightarrow> 1
              | FunctionCall _ _ _ _ \<Rightarrow> 2
              | Transfer _ \<Rightarrow> 3
              | Stake _ _ \<Rightarrow> 4
              | AddKey _ _ \<Rightarrow> 5
              | DeleteKey _ \<Rightarrow> 6
              | DeleteAccount _ \<Rightarrow> 7
              | Delegate _ \<Rightarrow> 8))) \<and>
   (serialize_Action a = Inr bs' \<longrightarrow>
      bs' \<noteq> [] \<and>
      hd bs' = (case a of
          CreateAccount \<Rightarrow> 0
        | DeployContract _ \<Rightarrow> 1
        | FunctionCall _ _ _ _ \<Rightarrow> 2
        | Transfer _ \<Rightarrow> 3
        | Stake _ _ \<Rightarrow> 4
        | AddKey _ _ \<Rightarrow> 5
        | DeleteKey _ \<Rightarrow> 6
        | DeleteAccount _ \<Rightarrow> 7
        | Delegate _ \<Rightarrow> 8))"
proof (rule conjI; rule impI)
  assume "well_formed_Action a"
  from decodes_Action [OF this] obtain bs where "serialize_Action a = Inr bs"
    by (auto simp: decodes_def)
  with serialize_Action_first_byte [OF this]
  show "\<exists>bs. serialize_Action a = Inr bs \<and> bs \<noteq> [] \<and>
      hd bs = (case a of
          CreateAccount \<Rightarrow> 0
        | DeployContract _ \<Rightarrow> 1
        | FunctionCall _ _ _ _ \<Rightarrow> 2
        | Transfer _ \<Rightarrow> 3
        | Stake _ _ \<Rightarrow> 4
        | AddKey _ _ \<Rightarrow> 5
        | DeleteKey _ \<Rightarrow> 6
        | DeleteAccount _ \<Rightarrow> 7
        | Delegate _ \<Rightarrow> 8)"
    by blast
next
  assume "serialize_Action a = Inr bs'"
  then show "bs' \<noteq> [] \<and>
      hd bs' = (case a of
          CreateAccount \<Rightarrow> 0
        | DeployContract _ \<Rightarrow> 1
        | FunctionCall _ _ _ _ \<Rightarrow> 2
        | Transfer _ \<Rightarrow> 3
        | Stake _ _ \<Rightarrow> 4
        | AddKey _ _ \<Rightarrow> 5
        | DeleteKey _ \<Rightarrow> 6
        | DeleteAccount _ \<Rightarrow> 7
        | Delegate _ \<Rightarrow> 8)"
    by (rule serialize_Action_first_byte)
qed

text \<open>
  C2 at one well-formed action of each of the nine variants: each has an encoding, and
  the encodings start with the bytes 0 to 8. The encoding of \<open>Transfer(deposit = 1000)\<close>
  is written out.
\<close>

theorem action_discriminant_witness:
  "well_formed_Action CreateAccount \<and>
   (\<exists>bs. serialize_Action CreateAccount = Inr bs \<and> bs \<noteq> [] \<and> hd bs = 0) \<and>
   well_formed_Action (DeployContract (JUint8Array [0, 97, 115, 109])) \<and>
   (\<exists>bs. serialize_Action (DeployContract (JUint8Array [0, 97, 115, 109])) = Inr bs \<and>
         bs \<noteq> [] \<and> hd bs = 1) \<and>
   well_formed_Action (FunctionCall ''m'' (JUint8Array [1, 2]) 3 4) \<and>
   (\<exists>bs. serialize_Action (FunctionCall ''m'' (JUint8Array [1, 2]) 3 4) = Inr bs \<and>
         bs \<noteq> [] \<and> hd bs = 2) \<and>
   well_formed_Action (Transfer 1000) \<and>
   (\<exists>bs. serialize_Action (Transfer 1000) = Inr bs \<and> bs \<noteq> [] \<and> hd bs = 3) \<and>
   well_formed_Action (Stake 5 example_key) \<and>
   (\<exists>bs. serialize_Action (Stake 5 example_key) = Inr bs \<and> bs \<noteq> [] \<and> hd bs = 4) \<and>
   well_formed_Action (AddKey example_key example_access_key) \<and>
   (\<exists>bs. serialize_Action (AddKey example_key example_access_key) = Inr bs \<and>
         bs \<noteq> [] \<and> hd bs = 5) \<and>
   well_formed_Action (DeleteKey example_key) \<and>
   (\<exists>bs. serialize_Action (DeleteKey example_key) = Inr bs \<and> bs \<noteq> [] \<and> hd bs = 6) \<and>
   well_formed_Action (DeleteAccount ''bob.test'') \<and>
   (\<exists>bs. serialize_Action (DeleteAccount ''bob.test'') = Inr bs \<and> bs \<noteq> [] \<and> hd bs = 7) \<and>
   well_formed_Action example_delegate \<and>
   (\<exists>bs. serialize_Action example_delegate = Inr bs \<and> bs \<noteq> [] \<and> hd bs = 8) \<and>
   serialize_Action (Transfer 1000) = Inr [3, 232, 3, 0, 0, 0, 0, 0, 0, 0, 0, 0, 0, 0, 0, 0, 0] \<and>
   hd [3, 232, 3, 0, 0, 0, 0, 0, 0, 0, 0, 0, 0, 0, 0, 0, 0 :: byte] = 3"
proof -
  note enc = action_discriminant [THEN conjunct1, rule_format]
  have w0: "well_formed_Action CreateAccount"
    by simp
  have w1: "well_formed_Action (DeployContract (JUint8Array [0, 97, 115, 109]))"
    by simp
  have w2: "well_formed_Action (FunctionCall ''m'' (JUint8Array [1, 2]) 3 4)"
    by (simp add: well_formed_string_def)
  have w3: "well_formed_Action (Transfer 1000)"
    by simp
  have w4: "well_formed_Action (Stake 5 example_key)"
    using well_formed_example_key by simp
  have w5: "well_formed_Action (AddKey example_key example_access_key)"
    using well_formed_example_key well_formed_example_access_key by simp
  have w6: "well_formed_Action (DeleteKey example_key)"
    using well_formed_example_key by simp
  have w7: "well_formed_Action (DeleteAccount ''bob.test'')"
    by (simp add: well_formed_string_def)
  have e0: "\<exists>bs. serialize_Action CreateAccount = Inr bs \<and> bs \<noteq> [] \<and> hd bs = 0"
    using enc [OF w0] by (simp only: Action.case)
  have e1: "\<exists>bs. serialize_Action (DeployContract (JUint8Array [0, 97, 115, 109])) = Inr bs \<and>
      bs \<noteq> [] \<and> hd bs = 1"
    using enc [OF w1] by (simp only: Action.case)
  have e2: "\<exists>bs. serialize_Action (FunctionCall ''m'' (JUint8Array [1, 2]) 3 4) = Inr bs \<and>
      bs \<noteq> [] \<and> hd bs = 2"
    using enc [OF w2] by (simp only: Action.case)
  have e3: "\<exists>bs. serialize_Action (Transfer 1000) = Inr bs \<and> bs \<noteq> [] \<and> hd bs = 3"
    using enc [OF w3] by (simp only: Action.case)
  have e4: "\<exists>bs. serialize_Action (Stake 5 example_key) = Inr bs \<and> bs \<noteq> [] \<and> hd bs = 4"
    using enc [OF w4] by (simp only: Action.case)
  have e5: "\<exists>bs. serialize_Action (AddKey example_key example_access_key) = Inr bs \<and>
      bs \<noteq> [] \<and> hd bs = 5"
    using enc [OF w5] by (simp only: Action.case)
  have e6: "\<exists>bs. serialize_Action (DeleteKey example_key) = Inr bs \<and> bs \<noteq> [] \<and> hd bs = 6"
    using enc [OF w6] by (simp only: Action.case)
  have e7: "\<exists>bs. serialize_Action (DeleteAccount ''bob.test'') = Inr bs \<and> bs \<noteq> [] \<and> hd bs = 7"
    using enc [OF w7] by (simp only: Action.case)
  have e8: "\<exists>bs. serialize_Action example_delegate = Inr bs \<and> bs \<noteq> [] \<and> hd bs = 8"
    using enc [OF well_formed_example_delegate] by (simp only: example_delegate_def Action.case)
  have t: "serialize_Action (Transfer 1000) =
      Inr [3, 232, 3, 0, 0, 0, 0, 0, 0, 0, 0, 0, 0, 0, 0, 0, 0]"
    by (simp add: writer_simps Action_values_def)
  from action_discriminant [THEN conjunct2, rule_format, OF t]
  have h: "hd [3, 232, 3, 0, 0, 0, 0, 0, 0, 0, 0, 0, 0, 0, 0, 0, 0 :: byte] = 3"
    by simp
  from w0 w1 w2 w3 w4 w5 w6 w7 well_formed_example_delegate e0 e1 e2 e3 e4 e5 e6 e7 e8 t h
  show ?thesis by - (intro conjI, assumption+)
qed

text \<open>
  C3, as amended. \<open>delegateAction\<close> does not look at the variants of the actions it wraps.
  Whenever the \<open>DelegateAction\<close> it builds is well formed, whatever the variants of the
  wrapped actions, \<open>Delegate\<close> included, the call succeeds and returns the \<open>Delegate\<close>
  action whose \<open>delegateAction.actions\<close> are the given actions, each wrapped in a
  \<open>NonDelegateAction\<close>, in the given order.
\<close>

theorem delegateAction_wraps_every_action:
  assumes "well_formed_DelegateAction
      (DelegateAction senderId receiverId' (map NonDelegateAction actions') nonce' blockHash'
         (KeyPair.getPublicKey keyPair))"
  shows "\<exists>sg. delegateAction sha256 senderId receiverId' actions' nonce' blockHash' keyPair =
      Inr (Delegate (SignedDelegateAction
        (DelegateAction senderId receiverId' (map NonDelegateAction actions') nonce' blockHash'
           (KeyPair.getPublicKey keyPair)) sg))"
proof -
  from decodes_DelegateAction [OF assms] obtain m where
    "serialize_DelegateAction
      (DelegateAction senderId receiverId' (map NonDelegateAction actions') nonce' blockHash'
         (KeyPair.getPublicKey keyPair)) = Inr m"
    by (auto simp: decodes_def)
  then show ?thesis
    by (simp add: delegateAction_def signDelegateActionData_def Let_def
        del: serialize_DelegateAction.simps)
qed

text \<open>The amended C3 at a list of actions that holds a \<open>Delegate\<close> action.\<close>

theorem delegateAction_wraps_every_action_witness:
  "well_formed_DelegateAction
     (DelegateAction ''alice.test'' ''bob.test'' (map NonDelegateAction [example_delegate]) 1
        (replicate 32 2) (KeyPair.getPublicKey (stub_key_pair example_key (replicate 64 9)))) \<and>
   (\<exists>sg. delegateAction stub_sha256 ''alice.test'' ''bob.test'' [example_delegate] 1 (replicate 32 2)
           (stub_key_pair example_key (replicate 64 9)) =
      Inr (Delegate (SignedDelegateAction
        (DelegateAction ''alice.test'' ''bob.test'' (map NonDelegateAction [example_delegate]) 1
           (replicate 32 2) (KeyPair.getPublicKey (stub_key_pair example_key (replicate 64 9)))) sg)))"
  using delegateAction_wraps_every_action [OF well_formed_nested_delegate, of stub_sha256]
    well_formed_nested_delegate
  by blast

text \<open>
  C3 as stated fails: the delegate builder, called with a list that holds a \<open>Delegate\<close>
  action, is not rejected. It returns a \<open>Delegate\<close> action that wraps the nested one.
\<close>

theorem delegateAction_nesting_counterexample:
  "delegateAction stub_sha256 ''alice.test'' ''bob.test'' [example_delegate] 1 (replicate 32 2)
     (stub_key_pair example_key (replicate 64 9)) =
   Inr (Delegate (SignedDelegateAction
     (DelegateAction ''alice.test'' ''bob.test'' [NonDelegateAction example_delegate] 1
        (replicate 32 2) example_key)
     \<lparr>Signature.keyType = 0, Signature.data = replicate 64 9\<rparr>))"
proof -
  from decodes_DelegateAction [OF well_formed_nested_delegate] obtain m where
    "serialize_DelegateAction
     (DelegateAction ''alice.test'' ''bob.test'' (map NonDelegateAction [example_delegate]) 1
        (replicate 32 2) (KeyPair.getPublicKey (stub_key_pair example_key (replicate 64 9)))) = Inr m"
    by (auto simp: decodes_def)
  then show ?thesis
    by (simp add: delegateAction_def signDelegateActionData_def Let_def stub_key_pair_def
        example_key_def del: serialize_DelegateAction.simps)
qed

text \<open>
  C4. When the transaction \<open>t\<close> has the canonical encoding \<open>message\<close> and the signer
  answers the signing request with \<open>sg\<close>, \<open>signTransaction(t, signer, ...)\<close> returns the
  pair of the hash of \<open>message\<close> and the signed transaction whose \<open>transaction\<close> is \<open>t\<close>,
  whose \<open>signature.data\<close> are the bytes the signer returned and whose
  \<open>signature.keyType\<close> is \<open>t.publicKey.keyType\<close>.
\<close>

theorem signTransaction_result:
  assumes "Transaction_encode t = Inr message"
    and "signMessage signer message accountId networkId s = (Inr sg, s')"
  shows "signTransaction sha256 (FromTransaction t) signer accountId networkId s =
    (Inr (sha256 message,
          \<lparr>transaction = t,
           signature = \<lparr>Signature.keyType = PublicKey.keyType (Transaction.publicKey t),
                        Signature.data = KeyPairSignature.signature sg\<rparr>\<rparr>), s')"
  using assms by (simp add: signTransaction_def signTransactionObject_def Transaction_encode_def)

text \<open>
  Scenario 3 of the specification: a transaction signed with a stub signer that returns
  64 bytes of 9.
\<close>

theorem signTransaction_result_witness:
  "signMessage (stub_signer example_key (replicate 64 9))
       ([10, 0, 0, 0] @ utf8 ''alice.test'' @ [0] @ replicate 32 1 @ [7, 0, 0, 0, 0, 0, 0, 0] @
        [8, 0, 0, 0] @ utf8 ''bob.test'' @ replicate 32 3 @ [1, 0, 0, 0] @
        [3, 232, 3, 0, 0, 0, 0, 0, 0, 0, 0, 0, 0, 0, 0, 0, 0])
       (Some ''alice.test'') None ()
     = (Inr \<lparr>KeyPairSignature.signature = replicate 64 9,
             KeyPairSignature.publicKey = example_key\<rparr>, ()) \<and>
   signTransaction stub_sha256 (FromTransaction small_transaction)
       (stub_signer example_key (replicate 64 9)) (Some ''alice.test'') None () =
     (Inr (stub_sha256
             ([10, 0, 0, 0] @ utf8 ''alice.test'' @ [0] @ replicate 32 1 @
              [7, 0, 0, 0, 0, 0, 0, 0] @ [8, 0, 0, 0] @ utf8 ''bob.test'' @ replicate 32 3 @
              [1, 0, 0, 0] @ [3, 232, 3, 0, 0, 0, 0, 0, 0, 0, 0, 0, 0, 0, 0, 0, 0]),
           \<lparr>transaction = small_transaction,
            signature = \<lparr>Signature.keyType = 0, Signature.data = replicate 64 9\<rparr>\<rparr>), ())"
proof -
  let ?m = "[10, 0, 0, 0] @ utf8 ''alice.test'' @ [0] @ replicate 32 1 @ [7, 0, 0, 0, 0, 0, 0, 0] @
        [8, 0, 0, 0] @ utf8 ''bob.test'' @ replicate 32 3 @ [1, 0, 0, 0] @
        [3, 232, 3, 0, 0, 0, 0, 0, 0, 0, 0, 0, 0, 0, 0, 0, 0 :: byte]"
  have s: "signMessage (stub_signer example_key (replicate 64 9)) ?m (Some ''alice.test'') None ()
       = (Inr \<lparr>KeyPairSignature.signature = replicate 64 9,
               KeyPairSignature.publicKey = example_key\<rparr>, ())"
    by (simp add: stub_signer_def)
  have k: "PublicKey.keyType (Transaction.publicKey small_transaction) = 0"
    by (simp add: small_transaction_def createTransaction_def example_key_def)
  from signTransaction_result [OF small_transaction_bytes s, of stub_sha256] s k
  show ?thesis by simp
qed

text \<open>
  C5, as amended. The message handed to the signer's \<open>signMessage\<close> is the canonical
  encoding of the transaction itself, not its hash: a signer that records its messages
  has recorded exactly the encoding after the call. The hash is computed next to it and
  returned. The delegate builder does hash first: the local key signs the hash of the
  encoded \<open>DelegateAction\<close>.
\<close>

theorem signed_message:
  "(Transaction_encode t = Inr message \<longrightarrow>
      snd (snd (signTransaction sha256 (FromTransaction t) (recording signer) accountId networkId
                  (s, log))) = log @ [message]) \<and>
   (serialize_DelegateAction d = Inr message' \<longrightarrow>
      signDelegateActionData sha256 d keyPair =
        Inr \<lparr>Signature.keyType = PublicKey.keyType (KeyPair.getPublicKey keyPair),
             Signature.data = KeyPairSignature.signature (sign keyPair (sha256 message'))\<rparr>)"
  by (auto simp: signTransaction_def signTransactionObject_def Transaction_encode_def recording_def
      signDelegateActionData_def split: prod.splits sum.splits)

text \<open>The amended C5 at a concrete transaction and a concrete \<open>DelegateAction\<close>.\<close>

theorem signed_message_witness:
  "Transaction_encode small_transaction =
     Inr ([10, 0, 0, 0] @ utf8 ''alice.test'' @ [0] @ replicate 32 1 @ [7, 0, 0, 0, 0, 0, 0, 0] @
        [8, 0, 0, 0] @ utf8 ''bob.test'' @ replicate 32 3 @ [1, 0, 0, 0] @
        [3, 232, 3, 0, 0, 0, 0, 0, 0, 0, 0, 0, 0, 0, 0, 0, 0]) \<and>
   snd (snd (signTransaction stub_sha256 (FromTransaction small_transaction)
      (recording (stub_signer example_key (replicate 64 9))) (Some ''alice.test'') None ((), [])))
     = [[10, 0, 0, 0] @ utf8 ''alice.test'' @ [0] @ replicate 32 1 @ [7, 0, 0, 0, 0, 0, 0, 0] @
        [8, 0, 0, 0] @ utf8 ''bob.test'' @ replicate 32 3 @ [1, 0, 0, 0] @
        [3, 232, 3, 0, 0, 0, 0, 0, 0, 0, 0, 0, 0, 0, 0, 0, 0]] \<and>
   serialize_DelegateAction small_delegate =
     Inr ([1, 0, 0, 0, 97] @ [1, 0, 0, 0, 98] @ [0, 0, 0, 0] @ [5, 0, 0, 0, 0, 0, 0, 0] @
          replicate 32 2 @ [0] @ replicate 32 1) \<and>
   signDelegateActionData stub_sha256 small_delegate (stub_key_pair example_key (replicate 64 9)) =
     Inr \<lparr>Signature.keyType = 0, Signature.data = replicate 64 9\<rparr>"
proof -
  let ?m = "[10, 0, 0, 0] @ utf8 ''alice.test'' @ [0] @ replicate 32 1 @ [7, 0, 0, 0, 0, 0, 0, 0] @
        [8, 0, 0, 0] @ utf8 ''bob.test'' @ replicate 32 3 @ [1, 0, 0, 0] @
        [3, 232, 3, 0, 0, 0, 0, 0, 0, 0, 0, 0, 0, 0, 0, 0, 0 :: byte]"
  let ?d = "[1, 0, 0, 0, 97] @ [1, 0, 0, 0, 98] @ [0, 0, 0, 0] @ [5, 0, 0, 0, 0, 0, 0, 0] @
          replicate 32 2 @ [0] @ replicate 32 (1 :: byte)"
  have k: "\<lparr>Signature.keyType =
        PublicKey.keyType (KeyPair.getPublicKey (stub_key_pair example_key (replicate 64 9))),
      Signature.data = KeyPairSignature.signature
        (sign (stub_key_pair example_key (replicate 64 9)) (stub_sha256 ?d))\<rparr> =
     \<lparr>Signature.keyType = 0, Signature.data = replicate 64 9\<rparr>"
    by (simp add: stub_key_pair_def example_key_def)
  from signed_message [of small_transaction ?m stub_sha256
      "stub_signer example_key (replicate 64 9)" "Some ''alice.test''" None "()" "[]"
      small_delegate ?d "stub_key_pair example_key (replicate 64 9)"]
    small_transaction_bytes small_delegate_bytes k
  show ?thesis by simp
qed

text \<open>
  C5 as stated fails: the one message the recording signer has received for the example
  transaction is 120 bytes long, the length of the encoding, where a SHA-256 hash has
  32 bytes; it is not the hash of the encoding.
\<close>

theorem signed_message_counterexample:
  "map length (snd (snd (signTransaction stub_sha256 (FromTransaction small_transaction)
      (recording (stub_signer example_key (replicate 64 9))) (Some ''alice.test'') None ((), []))))
     = [120] \<and>
   snd (snd (signTransaction stub_sha256 (FromTransaction small_transaction)
      (recording (stub_signer example_key (replicate 64 9))) (Some ''alice.test'') None ((), [])))
     \<noteq> [stub_sha256 (projr (Transaction_encode small_transaction))]"
  using small_transaction_bytes
  by (simp add: signTransaction_def signTransactionObject_def Transaction_encode_def recording_def
      stub_signer_def stub_sha256_def length_utf8 replicate_numeral)

text \<open>
  C6, as amended. The encoding of a \<open>Transaction\<close> is the concatenation, with nothing in
  between, of the encodings of its fields in the order of its schema entry: \<open>signerId\<close>,
  \<open>publicKey\<close>, \<open>nonce\<close>, \<open>receiverId\<close>, \<open>blockHash\<close>, \<open>actions\<close>. The 32 bytes of
  \<open>blockHash\<close> come before the encoded list of actions.
\<close>

theorem transaction_field_order:
  assumes "Transaction_encode t = Inr bs"
  shows "\<exists>s k n r a.
     writeString (signerId t) = Inr s \<and>
     serialize_PublicKey (Transaction.publicKey t) = Inr k \<and>
     writeU64 (Transaction.nonce t) = Inr n \<and>
     writeString (Some (Transaction.receiverId t)) = Inr r \<and>
     length (blockHash t) = 32 \<and>
     writeArray (map serialize_Action (actions t)) = Inr a \<and>
     bs = s @ k @ n @ r @ blockHash t @ a"
  using assms
  by (auto simp: Transaction_encode_def serialize_Transaction_def struct.simps writeFixedArray_def
      split: sum.splits if_splits)

text \<open>The amended C6 at the example transaction and its 120 bytes.\<close>

theorem transaction_field_order_witness:
  "Transaction_encode small_transaction =
     Inr ([10, 0, 0, 0] @ utf8 ''alice.test'' @ [0] @ replicate 32 1 @ [7, 0, 0, 0, 0, 0, 0, 0] @
        [8, 0, 0, 0] @ utf8 ''bob.test'' @ replicate 32 3 @ [1, 0, 0, 0] @
        [3, 232, 3, 0, 0, 0, 0, 0, 0, 0, 0, 0, 0, 0, 0, 0, 0]) \<and>
   (\<exists>s k n r a.
     writeString (signerId small_transaction) = Inr s \<and>
     serialize_PublicKey (Transaction.publicKey small_transaction) = Inr k \<and>
     writeU64 (Transaction.nonce small_transaction) = Inr n \<and>
     writeString (Some (Transaction.receiverId small_transaction)) = Inr r \<and>
     length (blockHash small_transaction) = 32 \<and>
     writeArray (map serialize_Action (actions small_transaction)) = Inr a \<and>
     [10, 0, 0, 0] @ utf8 ''alice.test'' @ [0] @ replicate 32 1 @ [7, 0, 0, 0, 0, 0, 0, 0] @
        [8, 0, 0, 0] @ utf8 ''bob.test'' @ replicate 32 3 @ [1, 0, 0, 0] @
        [3, 232, 3, 0, 0, 0, 0, 0, 0, 0, 0, 0, 0, 0, 0, 0, 0]
       = s @ k @ n @ r @ blockHash small_transaction @ a)"
  using transaction_field_order [OF small_transaction_bytes] small_transaction_bytes
  by blast

text \<open>
  C6 as stated fails: the encoding of the example transaction is not the concatenation
  of its fields in the order \<open>signerId\<close>, \<open>publicKey\<close>, \<open>nonce\<close>, \<open>receiverId\<close>,
  \<open>actions\<close>, \<open>blockHash\<close>.
\<close>

theorem transaction_field_order_counterexample:
  "Transaction_encode small_transaction \<noteq>
   struct [writeString (signerId small_transaction),
           serialize_PublicKey (Transaction.publicKey small_transaction),
           writeU64 (Transaction.nonce small_transaction),
           writeString (Some (Transaction.receiverId small_transaction)),
           writeArray (map serialize_Action (actions small_transaction)),
           writeFixedArray 32 (blockHash small_transaction)]"
  by (simp add: writer_simps Transaction_encode_def serialize_Transaction_def small_transaction_def
      createTransaction_def serialize_PublicKey_def example_key_def Action_values_def
      replicate_numeral)

text \<open>
  C7. Calling \<open>signTransaction\<close> on the parts is the same as fetching the public key from
  the signer, building the transaction with \<open>createTransaction\<close> and calling
  \<open>signTransaction\<close> on that transaction with the same signer, account and network; when
  the signer fails to give the key, the failure is the result.
\<close>

theorem signTransaction_call_shapes:
  "signTransaction sha256 (FromParts receiverId' nonce' actions' blockHash') signer accountId
      networkId s =
     (case Signer.getPublicKey signer accountId networkId s of
        (Inl e, s') \<Rightarrow> (Inl e, s')
      | (Inr publicKey', s') \<Rightarrow>
          signTransaction sha256
            (FromTransaction
               (createTransaction accountId publicKey' receiverId' nonce' actions' blockHash'))
            signer accountId networkId s')"
  by (simp add: signTransaction_def split: prod.splits sum.splits)

text \<open>
  C8, as amended. \<open>functionCall\<close> with the default \<open>stringify\<close> decides by the
  properties of \<open>args\<close>, not by its type. A value whose \<open>byteLength\<close> is not \<open>undefined\<close>
  and is strictly equal to its \<open>length\<close> is stored unchanged: a byte array, and also a
  plain object with two such properties, equal primitive values or the same object.
  For \<open>undefined\<close> and \<open>null\<close> the call throws a \<open>TypeError\<close>. For every other value the
  result follows \<open>JSON.stringify(args)\<close>: when that is a string, the stored \<open>args\<close> is
  its UTF-8 bytes; when it is \<open>undefined\<close>, the call throws a \<open>TypeError\<close>; when
  \<open>JSON.stringify\<close> throws, the call throws the same.
\<close>

theorem functionCall_duck_typing:
  "(prop_byteLength args = Inr b \<and> \<not> strict_equal b JUndefined \<and> prop_length args = Inr l \<and>
    strict_equal b l
      \<longrightarrow> functionCall methodName args gas deposit (stringifyJsonOrBytes JSON_stringify) False =
            Inr (FunctionCall methodName args gas deposit)) \<and>
   (unshared args = JUndefined \<or> unshared args = JNull
      \<longrightarrow> functionCall methodName args gas deposit (stringifyJsonOrBytes JSON_stringify) False =
            Inl TypeError) \<and>
   (prop_byteLength args = Inr b \<and>
    (strict_equal b JUndefined \<or> (\<forall>l. prop_length args = Inr l \<longrightarrow> \<not> strict_equal b l))
      \<longrightarrow> functionCall methodName args gas deposit (stringifyJsonOrBytes JSON_stringify) False =
            (case JSON_stringify args of
               Inr (Some s) \<Rightarrow> Inr (FunctionCall methodName (JUint8Array (utf8 s)) gas deposit)
             | Inr None \<Rightarrow> Inl TypeError
             | Inl e \<Rightarrow> Inl e))"
proof (intro conjI impI)
  assume "prop_byteLength args = Inr b \<and> \<not> strict_equal b JUndefined \<and>
    prop_length args = Inr l \<and> strict_equal b l"
  then show "functionCall methodName args gas deposit (stringifyJsonOrBytes JSON_stringify) False =
      Inr (FunctionCall methodName args gas deposit)"
    by (simp add: functionCall_def stringifyJsonOrBytes_def isUint8Array_def)
next
  assume "unshared args = JUndefined \<or> unshared args = JNull"
  then have "prop_byteLength args = Inl TypeError"
    by (rule prop_byteLength_nullish)
  then show "functionCall methodName args gas deposit (stringifyJsonOrBytes JSON_stringify) False =
      Inl TypeError"
    by (simp add: functionCall_def stringifyJsonOrBytes_def isUint8Array_def)
next
  assume a: "prop_byteLength args = Inr b \<and>
    (strict_equal b JUndefined \<or> (\<forall>l. prop_length args = Inr l \<longrightarrow> \<not> strict_equal b l))"
  then obtain l where l: "prop_length args = Inr l"
    using prop_length_succeeds by blast
  with a have "isUint8Array args = Inr False"
    by (auto simp: isUint8Array_def)
  then show "functionCall methodName args gas deposit (stringifyJsonOrBytes JSON_stringify) False =
      (case JSON_stringify args of
         Inr (Some s) \<Rightarrow> Inr (FunctionCall methodName (JUint8Array (utf8 s)) gas deposit)
       | Inr None \<Rightarrow> Inl TypeError
       | Inl e \<Rightarrow> Inl e)"
    by (simp add: functionCall_def stringifyJsonOrBytes_def Buffer_from_def
        split: sum.splits option.splits)
qed

text \<open>
  The amended C8 at a byte array of two bytes, at the plain object
  \<open>{byteLength: 2, length: 2}\<close> and at a plain object that holds the same array under
  both names, all stored unchanged; at \<open>undefined\<close>, where the call throws; at the empty
  object \<open>{}\<close>, stored as the two bytes of its JSON text, and at the object
  \<open>two_arrays\<close>, whose properties are two different arrays, stored as the bytes of its
  JSON text; at a function, for which \<open>JSON.stringify\<close> returns \<open>undefined\<close>, and at a
  BigInt, for which it throws: the call throws for both.
\<close>

theorem functionCall_duck_typing_witness:
  "functionCall ''m'' (JUint8Array [1, 2]) 1 2 (stringifyJsonOrBytes stub_JSON_stringify) False =
     Inr (FunctionCall ''m'' (JUint8Array [1, 2]) 1 2) \<and>
   functionCall ''m'' (JObject [(''byteLength'', JNum 2), (''length'', JNum 2)]) 1 2
      (stringifyJsonOrBytes stub_JSON_stringify) False =
     Inr (FunctionCall ''m'' (JObject [(''byteLength'', JNum 2), (''length'', JNum 2)]) 1 2) \<and>
   functionCall ''m''
      (JObject [(''byteLength'', JShared 7 (JArray [])), (''length'', JShared 7 (JArray []))]) 1 2
      (stringifyJsonOrBytes stub_JSON_stringify) False =
     Inr (FunctionCall ''m''
       (JObject [(''byteLength'', JShared 7 (JArray [])), (''length'', JShared 7 (JArray []))])
       1 2) \<and>
   functionCall ''m'' JUndefined 1 2 (stringifyJsonOrBytes stub_JSON_stringify) False =
     Inl TypeError \<and>
   functionCall ''m'' (JObject []) 1 2 (stringifyJsonOrBytes stub_JSON_stringify) False =
     Inr (FunctionCall ''m'' (JUint8Array (utf8 ''{}'')) 1 2) \<and>
   functionCall ''m'' two_arrays 1 2 (stringifyJsonOrBytes stub_JSON_stringify) False =
     Inr (FunctionCall ''m'' (JUint8Array (utf8 two_arrays_json)) 1 2) \<and>
   functionCall ''m'' (JFunction 0) 1 2 (stringifyJsonOrBytes stub_JSON_stringify) False =
     Inl TypeError \<and>
   functionCall ''m'' (JBigInt 1) 1 2 (stringifyJsonOrBytes stub_JSON_stringify) False =
     Inl TypeError"
proof -
  note same = functionCall_duck_typing [where methodName = "''m''" and gas = 1 and deposit = 2
      and JSON_stringify = stub_JSON_stringify, THEN conjunct1, rule_format]
  note nullish = functionCall_duck_typing [where methodName = "''m''" and gas = 1 and deposit = 2
      and JSON_stringify = stub_JSON_stringify, THEN conjunct2, THEN conjunct1, rule_format]
  note other = functionCall_duck_typing [where methodName = "''m''" and gas = 1 and deposit = 2
      and JSON_stringify = stub_JSON_stringify, THEN conjunct2, THEN conjunct2, rule_format]
  have 1: "prop_byteLength (JUint8Array [1, 2]) = Inr (JNum 2) \<and>
     \<not> strict_equal (JNum 2) JUndefined \<and>
     prop_length (JUint8Array [1, 2]) = Inr (JNum 2) \<and> strict_equal (JNum 2) (JNum 2)"
    by (simp add: strict_equal_def)
  have 2: "prop_byteLength (JObject [(''byteLength'', JNum 2), (''length'', JNum 2)]) =
       Inr (JNum 2) \<and>
     \<not> strict_equal (JNum 2) JUndefined \<and>
     prop_length (JObject [(''byteLength'', JNum 2), (''length'', JNum 2)]) = Inr (JNum 2) \<and>
     strict_equal (JNum 2) (JNum 2)"
    by (simp add: strict_equal_def own_prop_def)
  have 3: "prop_byteLength
       (JObject [(''byteLength'', JShared 7 (JArray [])), (''length'', JShared 7 (JArray []))]) =
       Inr (JShared 7 (JArray [])) \<and>
     \<not> strict_equal (JShared 7 (JArray [])) JUndefined \<and>
     prop_length
       (JObject [(''byteLength'', JShared 7 (JArray [])), (''length'', JShared 7 (JArray []))]) =
       Inr (JShared 7 (JArray [])) \<and>
     strict_equal (JShared 7 (JArray [])) (JShared 7 (JArray []))"
    by (simp add: strict_equal_def own_prop_def)
  have 4: "unshared JUndefined = JUndefined \<or> unshared JUndefined = JNull"
    by simp
  have 5: "prop_byteLength (JObject []) = Inr JUndefined \<and>
     (strict_equal JUndefined JUndefined \<or>
      (\<forall>l. prop_length (JObject []) = Inr l \<longrightarrow> \<not> strict_equal JUndefined l))"
    by (simp add: strict_equal_def own_prop_def)
  have 6: "prop_byteLength two_arrays = Inr (JArray []) \<and>
     (strict_equal (JArray []) JUndefined \<or>
      (\<forall>l. prop_length two_arrays = Inr l \<longrightarrow> \<not> strict_equal (JArray []) l))"
    by (simp add: strict_equal_def own_prop_def two_arrays_def)
  have 7: "prop_byteLength (JFunction 0) = Inr JUndefined \<and>
     (strict_equal JUndefined JUndefined \<or>
      (\<forall>l. prop_length (JFunction 0) = Inr l \<longrightarrow> \<not> strict_equal JUndefined l))"
    by (simp add: strict_equal_def)
  have 8: "prop_byteLength (JBigInt 1) = Inr JUndefined \<and>
     (strict_equal JUndefined JUndefined \<or>
      (\<forall>l. prop_length (JBigInt 1) = Inr l \<longrightarrow> \<not> strict_equal JUndefined l))"
    by (simp add: strict_equal_def)
  have s5: "stub_JSON_stringify (JObject []) = Inr (Some ''{}'')"
    by (simp add: stub_JSON_stringify_def)
  have s6: "stub_JSON_stringify two_arrays = Inr (Some two_arrays_json)"
    by (simp add: stub_JSON_stringify_def two_arrays_def)
  have s7: "stub_JSON_stringify (JFunction 0) = Inr None"
    by (simp add: stub_JSON_stringify_def two_arrays_def)
  have s8: "stub_JSON_stringify (JBigInt 1) = Inl TypeError"
    by (simp add: stub_JSON_stringify_def two_arrays_def)
  have r5: "functionCall ''m'' (JObject []) 1 2 (stringifyJsonOrBytes stub_JSON_stringify) False =
      Inr (FunctionCall ''m'' (JUint8Array (utf8 ''{}'')) 1 2)"
    using other [OF 5] by (simp add: s5)
  have r6: "functionCall ''m'' two_arrays 1 2 (stringifyJsonOrBytes stub_JSON_stringify) False =
      Inr (FunctionCall ''m'' (JUint8Array (utf8 two_arrays_json)) 1 2)"
    using other [OF 6] by (simp add: s6)
  have r7: "functionCall ''m'' (JFunction 0) 1 2 (stringifyJsonOrBytes stub_JSON_stringify) False =
      Inl TypeError"
    using other [OF 7] by (simp add: s7)
  have r8: "functionCall ''m'' (JBigInt 1) 1 2 (stringifyJsonOrBytes stub_JSON_stringify) False =
      Inl TypeError"
    using other [OF 8] by (simp add: s8)
  from same [OF 1]
    same [OF 2]
    same [OF 3]
    nullish [OF 4] r5 r6 r7 r8
  show ?thesis by - (intro conjI, assumption+)
qed

text \<open>
  C8 as stated fails at \<open>null\<close> and at a function, two values without matching
  properties. At \<open>null\<close> the call throws a \<open>TypeError\<close> when it reads \<open>args.byteLength\<close>,
  and stores no JSON text. At a function \<open>JSON.stringify\<close> returns \<open>undefined\<close>, not a
  text, and the call throws a \<open>TypeError\<close>.
\<close>

theorem functionCall_null_counterexample:
  "stub_JSON_stringify JNull = Inr (Some ''null'') \<and>
   functionCall ''m'' JNull 1 2 (stringifyJsonOrBytes stub_JSON_stringify) False = Inl TypeError \<and>
   functionCall ''m'' JNull 1 2 (stringifyJsonOrBytes stub_JSON_stringify) False \<noteq>
     Inr (FunctionCall ''m'' (JUint8Array (utf8 ''null'')) 1 2) \<and>
   stub_JSON_stringify (JFunction 0) = Inr None \<and>
   functionCall ''m'' (JFunction 0) 1 2 (stringifyJsonOrBytes stub_JSON_stringify) False =
     Inl TypeError"
  by (simp add: functionCall_def stringifyJsonOrBytes_def isUint8Array_def strict_equal_def
      stub_JSON_stringify_def two_arrays_def Buffer_from_def)

text \<open>
  C9. The access-key builders fix the nonce to zero: \<open>fullAccessKey()\<close> is the key with
  nonce 0 and the full-access permission, and \<open>functionCallAccessKey\<close> returns the key
  with nonce 0 and the function-call permission that carries exactly the given
  \<open>receiverId\<close>, \<open>methodNames\<close> and \<open>allowance\<close>.
\<close>

theorem access_key_builders:
  "AccessKey.nonce fullAccessKey = 0 \<and>
   permission fullAccessKey = Perm_fullAccess \<and>
   AccessKey.nonce (functionCallAccessKey receiverId' methodNames' allowance') = 0 \<and>
   permission (functionCallAccessKey receiverId' methodNames' allowance') =
     Perm_functionCall
       \<lparr>allowance = allowance', receiverId = receiverId', methodNames = methodNames'\<rparr>"
  by (simp add: fullAccessKey_def functionCallAccessKey_def)

text \<open>
  C10, as amended. In the build-then-sign call shape the transaction is built with its
  \<open>signerId\<close> taken verbatim from \<open>accountId\<close>: whenever the call returns a signed
  transaction, its \<open>signerId\<close> is the \<open>accountId\<close> that was passed, and an \<open>accountId\<close>
  was passed. When \<open>accountId\<close> is omitted and the signer gives a key, the transaction
  is built with an undefined \<open>signerId\<close>, its encoding fails with a \<open>TypeError\<close>, the
  call fails with it and the signer is not asked for a signature.
\<close>

theorem signerId_from_accountId:
  "(signTransaction sha256 (FromParts receiverId' nonce' actions' blockHash') signer accountId
        networkId s = (Inr (hash, signedTx), s')
      \<longrightarrow> signerId (transaction signedTx) = accountId \<and> accountId \<noteq> None) \<and>
   (Signer.getPublicKey signer None networkId s = (Inr publicKey', s')
      \<longrightarrow> signTransaction sha256 (FromParts receiverId' nonce' actions' blockHash') signer None
            networkId s = (Inl TypeError, s'))"
proof (rule conjI; rule impI)
  assume ok: "signTransaction sha256 (FromParts receiverId' nonce' actions' blockHash') signer
      accountId networkId s = (Inr (hash, signedTx), s')"
  then obtain pk s1 where pk: "Signer.getPublicKey signer accountId networkId s = (Inr pk, s1)"
    and obj: "signTransactionObject sha256
        (createTransaction accountId pk receiverId' nonce' actions' blockHash') signer accountId
        networkId s1 = (Inr (hash, signedTx), s')"
    by (auto simp: signTransaction_def split: prod.splits sum.splits)
  from obj have t: "transaction signedTx =
      createTransaction accountId pk receiverId' nonce' actions' blockHash'"
    by (auto simp: signTransactionObject_def split: prod.splits sum.splits)
  have "accountId \<noteq> None"
  proof
    assume "accountId = None"
    then have "serialize_Transaction
        (createTransaction accountId pk receiverId' nonce' actions' blockHash') = Inl TypeError"
      by (intro serialize_Transaction_None) (simp add: createTransaction_def)
    with obj show False by (simp add: signTransactionObject_def)
  qed
  with t show "signerId (transaction signedTx) = accountId \<and> accountId \<noteq> None"
    by (simp add: createTransaction_def)
next
  assume "Signer.getPublicKey signer None networkId s = (Inr publicKey', s')"
  then show "signTransaction sha256 (FromParts receiverId' nonce' actions' blockHash') signer None
      networkId s = (Inl TypeError, s')"
    by (simp add: signTransaction_def signTransactionObject_def createTransaction_def
        serialize_Transaction_None)
qed

text \<open>
  The amended C10 at the parts of the example transaction: signed for the account
  \<open>alice.test\<close>, and failing when the account is omitted.
\<close>

theorem signerId_from_accountId_witness:
  "signTransaction stub_sha256 (FromParts ''bob.test'' 7 [Transfer 1000] (replicate 32 3))
       (stub_signer example_key (replicate 64 9)) (Some ''alice.test'') None () =
     (Inr (replicate 32 0,
           \<lparr>transaction = small_transaction,
            signature = \<lparr>Signature.keyType = 0, Signature.data = replicate 64 9\<rparr>\<rparr>), ()) \<and>
   signerId (transaction
      \<lparr>transaction = small_transaction,
       signature = \<lparr>Signature.keyType = 0, Signature.data = replicate 64 9\<rparr>\<rparr>)
     = Some ''alice.test'' \<and>
   Signer.getPublicKey (stub_signer example_key (replicate 64 9)) None None () = (Inr example_key, ()) \<and>
   signTransaction stub_sha256 (FromParts ''bob.test'' 7 [Transfer 1000] (replicate 32 3))
       (stub_signer example_key (replicate 64 9)) None None () = (Inl TypeError, ())"
proof -
  have ok: "signTransaction stub_sha256 (FromParts ''bob.test'' 7 [Transfer 1000] (replicate 32 3))
       (stub_signer example_key (replicate 64 9)) (Some ''alice.test'') None () =
     (Inr (replicate 32 0,
           \<lparr>transaction = small_transaction,
            signature = \<lparr>Signature.keyType = 0, Signature.data = replicate 64 9\<rparr>\<rparr>), ())"
    using small_transaction_bytes
    by (simp add: signTransaction_def signTransactionObject_def small_transaction_parts
        stub_signer_def stub_sha256_def Transaction_encode_def)
       (simp add: small_transaction_def createTransaction_def example_key_def)
  have pk: "Signer.getPublicKey (stub_signer example_key (replicate 64 9)) None None ()
      = (Inr example_key, ())"
    by (simp add: stub_signer_def)
  from signerId_from_accountId [of stub_sha256 "''bob.test''" 7 "[Transfer 1000]" "replicate 32 3"
      "stub_signer example_key (replicate 64 9)" "Some ''alice.test''" None "()" "replicate 32 0"
      "\<lparr>transaction = small_transaction,
        signature = \<lparr>Signature.keyType = 0, Signature.data = replicate 64 9\<rparr>\<rparr>" "()" example_key]
    ok pk
  show ?thesis by simp
qed

text \<open>
  C10 as stated fails when \<open>accountId\<close> is omitted: the call on the parts of the example
  transaction does not return a signed transaction; it fails with a \<open>TypeError\<close>.
\<close>

theorem signerId_from_accountId_counterexample:
  "signTransaction stub_sha256 (FromParts ''bob.test'' 7 [Transfer 1000] (replicate 32 3))
     (stub_signer example_key (replicate 64 9)) None None () = (Inl TypeError, ())"
  by (simp add: signTransaction_def signTransactionObject_def createTransaction_def
      stub_signer_def serialize_Transaction_None)

end
